theory Spec2Isabelle
  imports Complex_Main "HOL-Library.Sublist"
begin

section \<open>The pull-request review engine of \<^verbatim>\<open>src/handlers/pull-reviewer.ts\<close>\<close>

text \<open>
  The class \<^verbatim>\<open>PullReviewer\<close> is embedded method by method. Everything a method
  awaits from outside the class (the source-control client, the completion client, the
  repository helpers, the loose JSON parser) is a field of the context record, holding
  the answer the collaborator gives for each argument; every call to a collaborator is
  appended to a trace, and a thrown value is the left injection of the result.
  Logging (\<^verbatim>\<open>logger.info\<close>, \<^verbatim>\<open>console.error\<close>) is not traced.
\<close>

subsection \<open>JavaScript numbers\<close>

text \<open>
  A JavaScript number is a finite value, an infinity or NaN. Finite values are embedded
  in the reals, where the comparisons of the source agree with those of the doubles.
\<close>

datatype js_number = Finite real | PosInfinity | NegInfinity | NaN

text \<open>\<^verbatim>\<open>a < b\<close>: false as soon as one side is NaN.\<close>

fun js_lt :: "js_number \<Rightarrow> js_number \<Rightarrow> bool" where
  "js_lt NaN _ = False"
| "js_lt _ NaN = False"
| "js_lt (Finite a) (Finite b) = (a < b)"
| "js_lt (Finite a) PosInfinity = True"
| "js_lt (Finite a) NegInfinity = False"
| "js_lt PosInfinity _ = False"
| "js_lt NegInfinity NegInfinity = False"
| "js_lt NegInfinity _ = True"

text \<open>\<^verbatim>\<open>a > b\<close> is \<^verbatim>\<open>b < a\<close>.\<close>

definition js_gt :: "js_number \<Rightarrow> js_number \<Rightarrow> bool" where
  "js_gt a b = js_lt b a"

text \<open>\<^verbatim>\<open>a - b\<close>.\<close>

fun js_minus :: "js_number \<Rightarrow> js_number \<Rightarrow> js_number" where
  "js_minus NaN _ = NaN"
| "js_minus _ NaN = NaN"
| "js_minus (Finite a) (Finite b) = Finite (a - b)"
| "js_minus (Finite a) PosInfinity = NegInfinity"
| "js_minus (Finite a) NegInfinity = PosInfinity"
| "js_minus PosInfinity PosInfinity = NaN"
| "js_minus PosInfinity _ = PosInfinity"
| "js_minus NegInfinity NegInfinity = NaN"
| "js_minus NegInfinity _ = NegInfinity"

definition isNaN :: "js_number \<Rightarrow> bool" where
  "isNaN n = (n = NaN)"

text \<open>\<^verbatim>\<open>!n\<close> on a number: zero and NaN are falsy.\<close>

definition falsy :: "js_number \<Rightarrow> bool" where
  "falsy n = (n = Finite 0 \<or> n = NaN)"

subsection \<open>Ground truth collector\<close>

text \<open>
  \<^verbatim>\<open>Record<string, string>\<close> is an association list; a mapping that is absent
  (\<^verbatim>\<open>undefined\<close>) is \<open>None\<close>. \<^verbatim>\<open>Reflect.ownKeys\<close> lists each key once.
\<close>

type_synonym dependency_map = "(string \<times> string) list"

definition ownKeys :: "dependency_map \<Rightarrow> string list" where
  "ownKeys d = remdups (map fst d)"

definition collectGroundTruths ::
  "(string \<times> nat) list \<Rightarrow> dependency_map option \<Rightarrow> dependency_map option \<Rightarrow> string list" where
  "collectGroundTruths languages dependencies devDependencies =
     (let groundTruths = [];
          groundTruths = (if length languages = 0
                          then groundTruths @ [''No languages found in the repository'']
                          else groundTruths);
          groundTruths = (case dependencies of
                            None \<Rightarrow> groundTruths
                          | Some d \<Rightarrow> if length (ownKeys d) = 0
                                      then groundTruths @ [''No dependencies found in the repository'']
                                      else groundTruths);
          groundTruths = (case devDependencies of
                            None \<Rightarrow> groundTruths
                          | Some d \<Rightarrow> if length (ownKeys d) = 0
                                      then groundTruths @ [''No devDependencies found in the repository'']
                                      else groundTruths)
      in groundTruths)"

subsection \<open>Thrown values, collaborator calls and tasks\<close>

text \<open>
  \<open>Error\<close> is a plain \<^verbatim>\<open>Error\<close> (also what a collaborator rejects with), \<open>TypeError\<close>
  the runtime's own, and \<open>LogReturn\<close> the value \<^verbatim>\<open>logger.error(msg, meta)\<close> returns
  and the source throws, with the caught error when the metadata carries one.
\<close>

datatype error =
    Error string
  | TypeError string
  | LogReturn string "error option"

datatype code_review_status = APPROVE | REQUEST_CHANGES | COMMENT

record issue =
  issue_number :: js_number
  issue_body :: "string option"

text \<open>One constructor for each call that leaves the class, with its arguments.\<close>

datatype call =
    ListEvents string string js_number
  | CreateReview string string js_number string code_review_status
  | GraphqlClosingIssues string string js_number
  | GraphqlConvertToDraft string
  | FetchIssue js_number
  | FormatSpecAndPull issue
  | FetchRepoLanguageStats
  | FetchRepoDependencies
  | FindGroundTruths string
  | GetModelMaxTokenLimit string
  | CreateCompletion string string "string list" string js_number

text \<open>
  A task takes the trace of the calls made so far and gives its outcome (a thrown value
  on the left, a returned one on the right) with the trace extended by its own calls.
\<close>

type_synonym 'a task = "call list \<Rightarrow> (error + 'a) \<times> call list"

definition resolve :: "'a \<Rightarrow> 'a task" where
  "resolve x tr = (Inr x, tr)"

definition reject :: "error \<Rightarrow> 'a task" where
  "reject e tr = (Inl e, tr)"

text \<open>\<^verbatim>\<open>const x = await m; f(x)\<close>: a rejection of \<open>m\<close> skips \<open>f\<close>.\<close>

definition andThen :: "'a task \<Rightarrow> ('a \<Rightarrow> 'b task) \<Rightarrow> 'b task" where
  "andThen m f tr = (case m tr of (Inl e, tr') \<Rightarrow> (Inl e, tr') | (Inr x, tr') \<Rightarrow> f x tr')"

text \<open>\<^verbatim>\<open>try { m } catch (e) { h(e) }\<close>.\<close>

definition tryCatch :: "'a task \<Rightarrow> (error \<Rightarrow> 'a task) \<Rightarrow> 'a task" where
  "tryCatch m h tr = (case m tr of (Inl e, tr') \<Rightarrow> h e tr' | (Inr x, tr') \<Rightarrow> (Inr x, tr'))"

text \<open>A call to a collaborator: recorded, then answered.\<close>

definition request :: "call \<Rightarrow> error + 'a \<Rightarrow> 'a task" where
  "request c answer tr = (answer, tr @ [c])"

text \<open>A helper that runs inside the process and may throw: answered, not recorded.\<close>

definition settle :: "error + 'a \<Rightarrow> 'a task" where
  "settle answer tr = (answer, tr)"

text \<open>
  \<^verbatim>\<open>Promise.all([m1, m2])\<close>: both calls are made, then both are awaited. When one
  rejects, the whole rejects with its error; when both reject, with the error of the one
  that rejected first in time, which the first argument tells.
\<close>

definition promiseAll :: "bool \<Rightarrow> 'a task \<Rightarrow> 'b task \<Rightarrow> ('a \<times> 'b) task" where
  "promiseAll secondRejectsFirst m1 m2 tr =
     (case m1 tr of (r1, tr1) \<Rightarrow>
        (case m2 tr1 of (r2, tr2) \<Rightarrow>
           (case r1 of
              Inl e1 \<Rightarrow>
                (case r2 of
                   Inl e2 \<Rightarrow> (Inl (if secondRejectsFirst then e2 else e1), tr2)
                 | Inr y \<Rightarrow> (Inl e1, tr2))
            | Inr x \<Rightarrow> (case r2 of Inl e2 \<Rightarrow> (Inl e2, tr2) | Inr y \<Rightarrow> (Inr (x, y), tr2)))))"

subsection \<open>Parsed model output\<close>

text \<open>What the loose JSON parser can hand back. An object lists each key once.\<close>

datatype json =
    JUndefined
  | JNull
  | JBoolean bool
  | JNumber js_number
  | JString string
  | JArray "json list"
  | JObject "(string \<times> json) list"

fun typeof :: "json \<Rightarrow> string" where
  "typeof JUndefined = ''undefined''"
| "typeof JNull = ''object''"
| "typeof (JBoolean b) = ''boolean''"
| "typeof (JNumber n) = ''number''"
| "typeof (JString s) = ''string''"
| "typeof (JArray xs) = ''object''"
| "typeof (JObject kvs) = ''object''"

text \<open>
  \<^verbatim>\<open>const { confidenceThreshold: rawThreshold, reviewComment: rawComment } = parsedInput\<close>:
  a TypeError on \<^verbatim>\<open>undefined\<close> and \<^verbatim>\<open>null\<close>, the two properties of an object
  (\<^verbatim>\<open>undefined\<close> for a missing one), and \<^verbatim>\<open>undefined\<close> twice on any other value,
  which has neither property.
\<close>

definition property :: "(string \<times> json) list \<Rightarrow> string \<Rightarrow> json" where
  "property kvs k = (case map_of kvs k of None \<Rightarrow> JUndefined | Some v \<Rightarrow> v)"

fun destructure :: "json \<Rightarrow> error + (json \<times> json)" where
  "destructure JUndefined = Inl (TypeError ''Cannot destructure property of undefined'')"
| "destructure JNull = Inl (TypeError ''Cannot destructure property of null'')"
| "destructure (JObject kvs) =
     Inr (property kvs ''confidenceThreshold'', property kvs ''reviewComment'')"
| "destructure _ = Inr (JUndefined, JUndefined)"

subsection \<open>The context\<close>

record pull_request =
  pr_number :: js_number
  node_id :: string
  draft :: bool
  state :: string
  body :: "string option"
  base_repo_owner_login :: string
  base_repo_name :: string

record timeline_event =
  event :: string
  actor_type :: string
  created_at :: string

text \<open>A node of the closing-references query, and the reference the source maps it to.\<close>

record closing_node =
  node_number :: js_number
  node_title :: string
  node_url :: string
  node_body :: string
  node_name :: string
  node_owner :: string

record closing_issue =
  number :: js_number
  title :: string
  url :: string
  closing_body :: string
  repository_name :: string
  repository_owner :: string

record closing_result =
  closesIssues :: bool
  issues :: "closing_issue list"

record completion =
  answer :: string
  completion_groundTruths :: "string list"
  tokenUsage_total :: nat

record pull_review_data =
  confidenceThreshold :: js_number
  reviewComment :: string

record callback_result =
  status :: nat
  reason :: string

text \<open>
  The context of one invocation: the payload, the configuration, and for each
  collaborator the answer it gives. \<open>now\<close> is \<^verbatim>\<open>new Date().getTime()\<close>,
  \<open>Date_getTime s\<close> is \<^verbatim>\<open>new Date(s).getTime()\<close> (NaN on an invalid date) and
  \<open>StringToNumber s\<close> is \<^verbatim>\<open>Number(s)\<close> on a string: the runtime's own functions,
  taken as they are. \<open>dependenciesRejectFirst\<close> tells, for the two repository fetches
  that run side by side, whether the dependency fetch is the first to reject when both do.
\<close>

record Context =
  payload_pull_request :: pull_request
  payload_number :: js_number
  payload_repository_owner_login :: string
  payload_repository_name :: string
  UBIQUITY_OS_APP_NAME :: string
  anthropicAiModel :: string
  now :: real
  Date_getTime :: "string \<Rightarrow> js_number"
  StringToNumber :: "string \<Rightarrow> js_number"
  listEvents :: "string \<Rightarrow> string \<Rightarrow> js_number \<Rightarrow> error + timeline_event list"
  createReview ::
    "string \<Rightarrow> string \<Rightarrow> js_number \<Rightarrow> string \<Rightarrow> code_review_status \<Rightarrow> error + string"
  graphql_closedByPullRequestsReferences ::
    "string \<Rightarrow> string \<Rightarrow> js_number \<Rightarrow> error + closing_node list"
  graphql_convertPullRequestToDraft :: "string \<Rightarrow> error + unit"
  fetchIssue :: "js_number \<Rightarrow> error + issue option"
  formatSpecAndPull :: "issue \<Rightarrow> error + string"
  fetchRepoLanguageStats :: "error + (string \<times> nat) list"
  fetchRepoDependencies :: "error + (dependency_map option \<times> dependency_map option)"
  dependenciesRejectFirst :: bool
  findGroundTruths :: "string \<Rightarrow> error + string list"
  parseLooseJson :: "string \<Rightarrow> error + json"
  getModelMaxTokenLimit :: "string \<Rightarrow> error + js_number"
  createCompletion ::
    "string \<Rightarrow> string \<Rightarrow> string list \<Rightarrow> string \<Rightarrow> js_number \<Rightarrow> error + completion"

subsection \<open>Review throttle\<close>

definition oneDay :: real where
  "oneDay = 24 * 60 * 60 * 1000"

definition canPerformReview :: "Context \<Rightarrow> bool task" where
  "canPerformReview ctx =
     andThen
       (request
          (ListEvents (payload_repository_owner_login ctx) (payload_repository_name ctx)
             (payload_number ctx))
          (listEvents ctx (payload_repository_owner_login ctx) (payload_repository_name ctx)
             (payload_number ctx)))
       (\<lambda>timeline.
          let reviews = filter (\<lambda>e. event e = ''reviewed'') timeline;
              botReviews = filter (\<lambda>review. actor_type review = ''Bot'') reviews
          in if length botReviews = 0 then resolve True
             else
               let lastReview = botReviews ! (length botReviews - 1);
                   lastReviewDate = Date_getTime ctx (created_at lastReview);
                   diff = js_minus (Finite (now ctx)) lastReviewDate
               in if js_lt diff (Finite oneDay)
                  then reject (LogReturn ''Only one review per day is allowed'' None)
                  else resolve True)"

subsection \<open>Draft conversion and review submission\<close>

definition convertPullToDraft :: "Context \<Rightarrow> string \<Rightarrow> unit task" where
  "convertPullToDraft ctx nodeId =
     tryCatch
       (request (GraphqlConvertToDraft nodeId) (graphql_convertPullRequestToDraft ctx nodeId))
       (\<lambda>e. reject (LogReturn ''Failed to convert pull request to draft mode: '' (Some e)))"

definition submitCodeReview :: "Context \<Rightarrow> string \<Rightarrow> code_review_status \<Rightarrow> unit task" where
  "submitCodeReview ctx review st =
     tryCatch
       (andThen
          (request
             (CreateReview (payload_repository_owner_login ctx) (payload_repository_name ctx)
                (payload_number ctx) review st)
             (createReview ctx (payload_repository_owner_login ctx)
                (payload_repository_name ctx) (payload_number ctx) review st))
          (\<lambda>html_url. resolve ()))
       (\<lambda>er. reject (LogReturn ''Failed to submit code review'' (Some er)))"

subsection \<open>Task linker\<close>

definition checkIfPrClosesIssues ::
  "Context \<Rightarrow> string \<Rightarrow> string \<Rightarrow> js_number \<Rightarrow> closing_result task" where
  "checkIfPrClosesIssues ctx owner repo pr_num =
     (if falsy pr_num
      then reject (Error ''[checkIfPrClosesIssues]: pr_number is required'')
      else
        tryCatch
          (andThen
             (request (GraphqlClosingIssues owner repo pr_num)
                (graphql_closedByPullRequestsReferences ctx owner repo pr_num))
             (\<lambda>edges.
                let closingIssues =
                      map (\<lambda>node.
                             \<lparr>number = node_number node, title = node_title node,
                              url = node_url node, closing_body = node_body node,
                              repository_name = node_name node,
                              repository_owner = node_owner node\<rparr>) edges
                in if length closingIssues > 0
                   then resolve \<lparr>closesIssues = True, issues = closingIssues\<rparr>
                   else resolve \<lparr>closesIssues = False, issues = []\<rparr>))
          (\<lambda>error. resolve \<lparr>closesIssues = False, issues = []\<rparr>))"

text \<open>
  \<^verbatim>\<open>body.match(/#(\d+)/g)\<close>: every match from left to right, each a \<open>#\<close> with the
  longest run of digits after it, the search resuming behind the match; \<^verbatim>\<open>null\<close>
  when there is none.
\<close>

definition isDigit :: "char \<Rightarrow> bool" where
  "isDigit c = (c \<in> set ''0123456789'')"

function matchAllHashDigits :: "string \<Rightarrow> string list" where
  "matchAllHashDigits [] = []"
| "matchAllHashDigits (c # cs) =
     (if c = CHR ''#'' \<and> takeWhile isDigit cs \<noteq> []
      then (c # takeWhile isDigit cs) # matchAllHashDigits (dropWhile isDigit cs)
      else matchAllHashDigits cs)"
  by pat_completeness auto
termination
  by (relation "measure length") (auto simp: length_dropWhile_le less_Suc_eq_le)

definition matchHashDigits :: "string \<Rightarrow> string list option" where
  "matchHashDigits s = (case matchAllHashDigits s of [] \<Rightarrow> None | m # ms \<Rightarrow> Some (m # ms))"

text \<open>\<^verbatim>\<open>s.replace("#", "")\<close> drops the first \<open>#\<close>.\<close>

definition replaceHash :: "string \<Rightarrow> string" where
  "replaceHash s = remove1 (CHR ''#'') s"

definition getTaskNumberFromPullRequest :: "Context \<Rightarrow> js_number task" where
  "getTaskNumberFromPullRequest ctx =
     (let pull_request = payload_pull_request ctx in
      andThen
        (checkIfPrClosesIssues ctx (base_repo_owner_login pull_request)
           (base_repo_name pull_request) (pr_number pull_request))
        (\<lambda>result.
           let closingIssues = issues result in
           andThen
             (if length closingIssues = 0 then
                (let linkedViaBodyHash =
                       (case body pull_request of None \<Rightarrow> None | Some b \<Rightarrow> matchHashDigits b)
                 in case linkedViaBodyHash of
                      Some (m # ms) \<Rightarrow> resolve (StringToNumber ctx (replaceHash m))
                    | _ \<Rightarrow>
                        andThen (convertPullToDraft ctx (node_id pull_request))
                          (\<lambda>u. reject
                                 (LogReturn
                                    ''You need to link an issue and after that convert the PR to ready for review''
                                    None)))
              else if length closingIssues > 1 then
                reject
                  (LogReturn
                     ''Multiple tasks linked to this PR, needs investigated to see how best to handle it.''
                     None)
              else resolve (number (closingIssues ! 0)))
             (\<lambda>issueNumber.
                if falsy issueNumber then reject (LogReturn ''Task number not found'' None)
                else resolve issueNumber)))"

subsection \<open>Verdict parsing\<close>

text \<open>
  \<^verbatim>\<open>Number(v)\<close>. The source reads it on a value whose \<^verbatim>\<open>typeof\<close> is number or
  string only (the check on \<^verbatim>\<open>isNaN\<close> sits behind the check on \<^verbatim>\<open>typeof\<close>), so
  what the last equation gives on arrays and objects is never read.
\<close>

fun Number_of :: "Context \<Rightarrow> json \<Rightarrow> js_number" where
  "Number_of ctx (JNumber n) = n"
| "Number_of ctx (JString s) = StringToNumber ctx s"
| "Number_of ctx JUndefined = NaN"
| "Number_of ctx JNull = Finite 0"
| "Number_of ctx (JBoolean b) = Finite (if b then 1 else 0)"
| "Number_of ctx _ = NaN"

definition parsePullReviewData :: "Context \<Rightarrow> string \<Rightarrow> pull_review_data task" where
  "parsePullReviewData ctx input =
     tryCatch
       (andThen (settle (parseLooseJson ctx input))
          (\<lambda>parsedInput.
             andThen (settle (destructure parsedInput))
               (\<lambda>(rawThreshold, rawComment).
                  if typeof rawThreshold \<noteq> ''number''
                     \<and> (typeof rawThreshold \<noteq> ''string'' \<or> isNaN (Number_of ctx rawThreshold))
                  then reject (LogReturn ''Invalid or missing confidenceThreshold'' None)
                  else
                    (case rawComment of
                       JString comment \<Rightarrow>
                         resolve
                           \<lparr>confidenceThreshold = Number_of ctx rawThreshold,
                            reviewComment = comment\<rparr>
                     | _ \<Rightarrow> reject (LogReturn ''Invalid or missing reviewComment'' None)))))
       (\<lambda>e. reject (LogReturn ''Couldn't parse JSON output; Aborting'' (Some e)))"

text \<open>
  The specification's reading of the first check: a value that is a number, or a string
  that \<^verbatim>\<open>Number\<close> does not turn into NaN.
\<close>

definition numericOrNumericString :: "Context \<Rightarrow> json \<Rightarrow> bool" where
  "numericOrNumericString ctx v =
     (case v of JNumber n \<Rightarrow> True | JString s \<Rightarrow> StringToNumber ctx s \<noteq> NaN | _ \<Rightarrow> False)"

subsection \<open>Review orchestrator\<close>

definition reviewPull :: "Context \<Rightarrow> completion task" where
  "reviewPull ctx =
     andThen (getTaskNumberFromPullRequest ctx)
       (\<lambda>taskNumber.
          andThen (request (FetchIssue taskNumber) (fetchIssue ctx taskNumber))
            (\<lambda>fetched.
               case fetched of
                 None \<Rightarrow> reject (LogReturn ''Error fetching issue, Aborting'' None)
               | Some issue \<Rightarrow>
                   let taskSpecification = (case issue_body issue of None \<Rightarrow> [] | Some b \<Rightarrow> b) in
                   andThen (request (FormatSpecAndPull issue) (formatSpecAndPull ctx issue))
                     (\<lambda>formattedSpecAndPull.
                        andThen
                          (promiseAll (dependenciesRejectFirst ctx)
                             (request FetchRepoLanguageStats (fetchRepoLanguageStats ctx))
                             (request FetchRepoDependencies (fetchRepoDependencies ctx)))
                          (\<lambda>(languages, dependencies, devDependencies).
                             let groundTruths =
                                   collectGroundTruths languages dependencies devDependencies
                             in if length groundTruths = 3 then
                                  andThen
                                    (request (GetModelMaxTokenLimit (anthropicAiModel ctx))
                                       (getModelMaxTokenLimit ctx (anthropicAiModel ctx)))
                                    (\<lambda>limit.
                                       request
                                         (CreateCompletion (anthropicAiModel ctx)
                                            formattedSpecAndPull groundTruths
                                            (UBIQUITY_OS_APP_NAME ctx) limit)
                                         (createCompletion ctx (anthropicAiModel ctx)
                                            formattedSpecAndPull groundTruths
                                            (UBIQUITY_OS_APP_NAME ctx) limit))
                                else
                                  andThen
                                    (request (FindGroundTruths taskSpecification)
                                       (findGroundTruths ctx taskSpecification))
                                    (\<lambda>groundTruths.
                                       andThen
                                         (request (GetModelMaxTokenLimit (anthropicAiModel ctx))
                                            (getModelMaxTokenLimit ctx (anthropicAiModel ctx)))
                                         (\<lambda>limit.
                                            request
                                              (CreateCompletion (anthropicAiModel ctx)
                                                 formattedSpecAndPull groundTruths
                                                 (UBIQUITY_OS_APP_NAME ctx) limit)
                                              (createCompletion ctx (anthropicAiModel ctx)
                                                 formattedSpecAndPull groundTruths
                                                 (UBIQUITY_OS_APP_NAME ctx) limit)))))))"

definition handleCodeReview :: "Context \<Rightarrow> callback_result task" where
  "handleCodeReview ctx =
     andThen (reviewPull ctx)
       (\<lambda>pullReviewData.
          andThen (parsePullReviewData ctx (answer pullReviewData))
            (\<lambda>parsed.
               andThen
                 (if js_lt (confidenceThreshold parsed) (Finite 0.5)
                  then convertPullToDraft ctx (node_id (payload_pull_request ctx))
                  else resolve ())
                 (\<lambda>u.
                    andThen
                      (submitCodeReview ctx (reviewComment parsed)
                         (if js_gt (confidenceThreshold parsed) (Finite 0.5)
                          then COMMENT else REQUEST_CHANGES))
                      (\<lambda>u. resolve \<lparr>status = 200, reason = ''Success''\<rparr>))))"

text \<open>\<^verbatim>\<open>logger.info(msg).logMessage.raw\<close> is the message as it was passed.\<close>

definition logger_info_raw :: "string \<Rightarrow> string" where
  "logger_info_raw msg = msg"

definition performPullPrecheck :: "Context \<Rightarrow> callback_result task" where
  "performPullPrecheck ctx =
     (if draft (payload_pull_request ctx) then
        resolve
          \<lparr>status = 200, reason = logger_info_raw ''PR is in draft mode, no action required''\<rparr>
      else if state (payload_pull_request ctx) = ''closed'' then
        resolve \<lparr>status = 200, reason = logger_info_raw ''PR is closed, no action required''\<rparr>
      else
        andThen (canPerformReview ctx)
          (\<lambda>allowed.
             if \<not> allowed then
               resolve
                 \<lparr>status = 200, reason = logger_info_raw ''Cannot perform review at this time''\<rparr>
             else handleCodeReview ctx))"

subsection \<open>Observers of a trace\<close>

fun isCreateCompletion :: "call \<Rightarrow> bool" where
  "isCreateCompletion (CreateCompletion m f g a l) = True"
| "isCreateCompletion _ = False"

fun isCompletionClientCall :: "call \<Rightarrow> bool" where
  "isCompletionClientCall (CreateCompletion m f g a l) = True"
| "isCompletionClientCall (GetModelMaxTokenLimit m) = True"
| "isCompletionClientCall (FindGroundTruths s) = True"
| "isCompletionClientCall _ = False"

subsection \<open>A sample invocation\<close>

text \<open>
  The context that \<^verbatim>\<open>createContext()\<close> of \<^verbatim>\<open>tests/main.test.ts\<close> builds: pull
  request 3 of \<^verbatim>\<open>ubiquity/test-repo\<close>, open and not a draft, a completion client that
  answers \<^verbatim>\<open>MOCK_ANSWER_PASSED\<close> with a token limit of 50000. The clock stands at two
  days after the epoch. The sample runtime knows \<^verbatim>\<open>Number\<close> on strings of decimal
  digits and \<^verbatim>\<open>Date\<close> on three timestamps; the sample parser knows the mock answers.
\<close>

definition digitValue :: "char \<Rightarrow> nat" where
  "digitValue c = length (takeWhile (\<lambda>d. d \<noteq> c) ''0123456789'')"

definition sampleStringToNumber :: "string \<Rightarrow> js_number" where
  "sampleStringToNumber s =
     (if s \<noteq> [] \<and> list_all isDigit s
      then Finite (real (foldl (\<lambda>n c. 10 * n + digitValue c) 0 s))
      else NaN)"

definition sampleDate_getTime :: "string \<Rightarrow> js_number" where
  "sampleDate_getTime s =
     (if s = ''1970-01-02T12:00:00Z'' then Finite 129600000
      else if s = ''1970-01-02T00:00:00Z'' then Finite 86400000
      else if s = ''1970-01-01T12:00:00Z'' then Finite 43200000
      else NaN)"

definition MOCK_ANSWER_PASSED :: string where
  "MOCK_ANSWER_PASSED = ''{confidenceThreshold: 1, reviewComment: 'passed'}''"

definition verdict :: "js_number \<Rightarrow> string \<Rightarrow> json" where
  "verdict c r = JObject [(''confidenceThreshold'', JNumber c), (''reviewComment'', JString r)]"

definition sampleParseLooseJson :: "string \<Rightarrow> error + json" where
  "sampleParseLooseJson s =
     (if s = MOCK_ANSWER_PASSED then Inr (verdict (Finite 1) ''passed'')
      else if s = ''{confidenceThreshold: 0.5, reviewComment: 'unsure'}''
      then Inr (verdict (Finite 0.5) ''unsure'')
      else if s = ''{confidenceThreshold: 0.2, reviewComment: 'failed'}''
      then Inr (verdict (Finite 0.2) ''failed'')
      else if s = ''{confidenceThreshold: NaN, reviewComment: 'unknown'}''
      then Inr (verdict NaN ''unknown'')
      else if s = ''{confidenceThreshold: '1', reviewComment: 'passed'}''
      then Inr (JObject [(''confidenceThreshold'', JString ''1''),
                         (''reviewComment'', JString ''passed'')])
      else if s = ''{confidenceThreshold: 1}''
      then Inr (JObject [(''confidenceThreshold'', JNumber (Finite 1))])
      else Inl (Error ''Unexpected token''))"

definition sample_pull_request :: pull_request where
  "sample_pull_request =
     \<lparr>pr_number = Finite 3, node_id = ''PR_node_3'', draft = False, state = ''open'',
      body = Some ''Resolves #1'', base_repo_owner_login = ''ubiquity'',
      base_repo_name = ''test-repo''\<rparr>"

definition sample_context :: Context where
  "sample_context =
     \<lparr>payload_pull_request = sample_pull_request,
      payload_number = Finite 3,
      payload_repository_owner_login = ''ubiquity'',
      payload_repository_name = ''test-repo'',
      UBIQUITY_OS_APP_NAME = ''UbiquityOS'',
      anthropicAiModel = ''claude'',
      now = 172800000,
      Date_getTime = sampleDate_getTime,
      StringToNumber = sampleStringToNumber,
      listEvents = (\<lambda>owner repo n. Inr []),
      createReview = (\<lambda>owner repo n review st. Inr ''abc''),
      graphql_closedByPullRequestsReferences = (\<lambda>owner repo n. Inr []),
      graphql_convertPullRequestToDraft = (\<lambda>nodeId. Inr ()),
      fetchIssue = (\<lambda>n. Inr (Some \<lparr>issue_number = n, issue_body = Some ''spec''\<rparr>)),
      formatSpecAndPull = (\<lambda>i. Inr ''formatted''),
      fetchRepoLanguageStats = Inr [(''ts'', 100)],
      fetchRepoDependencies = Inr (Some [(''a'', ''1'')], Some []),
      dependenciesRejectFirst = False,
      findGroundTruths = (\<lambda>spec. Inr [''derived'']),
      parseLooseJson = sampleParseLooseJson,
      getModelMaxTokenLimit = (\<lambda>m. Inr (Finite 50000)),
      createCompletion =
        (\<lambda>m f g a l. Inr \<lparr>answer = MOCK_ANSWER_PASSED, completion_groundTruths = [[]],
                           tokenUsage_total = 1150\<rparr>)\<rparr>"

definition botReviewAt :: "string \<Rightarrow> timeline_event" where
  "botReviewAt t = \<lparr>event = ''reviewed'', actor_type = ''Bot'', created_at = t\<rparr>"

definition sampleNode :: "real \<Rightarrow> closing_node" where
  "sampleNode n =
     \<lparr>node_number = Finite n, node_title = ''task'', node_url = ''https://github.com'',
      node_body = ''spec'', node_name = ''test-repo'', node_owner = ''ubiquity''\<rparr>"

section \<open>Properties\<close>

lemmas task_defs = resolve_def reject_def andThen_def tryCatch_def request_def settle_def

lemmas sample_defs = sample_context_def sample_pull_request_def botReviewAt_def
  sampleDate_getTime_def

subsection \<open>Closing-reference query\<close>

text \<open>
  Claim C7. \<open>checkIfPrClosesIssues\<close> with \<open>pr_number = 0\<close> raises the plain
  \<^verbatim>\<open>Error\<close> with the trace unchanged, so before any call is made; and when the PR
  number is accepted and the closing-references query fails, the failure is absorbed: the
  result is \<^verbatim>\<open>{closesIssues: false, issues: []}\<close>, with the query as the only call.
\<close>

theorem checkIfPrClosesIssues_zero_and_failure:
  "checkIfPrClosesIssues ctx owner repo (Finite 0) tr
     = (Inl (Error ''[checkIfPrClosesIssues]: pr_number is required''), tr)
   \<and> (\<not> falsy n \<longrightarrow> graphql_closedByPullRequestsReferences ctx owner repo n = Inl e \<longrightarrow>
        checkIfPrClosesIssues ctx owner repo n tr
          = (Inr \<lparr>closesIssues = False, issues = []\<rparr>, tr @ [GraphqlClosingIssues owner repo n]))"
  by (simp add: checkIfPrClosesIssues_def falsy_def task_defs)

text \<open>The failing query on the sample pull request, and the PR number 0.\<close>

theorem checkIfPrClosesIssues_witness:
  "\<not> falsy (Finite 3)
   \<and> graphql_closedByPullRequestsReferences
        (sample_context\<lparr>graphql_closedByPullRequestsReferences :=
           (\<lambda>owner repo n. Inl (Error ''Bad gateway''))\<rparr>) ''ubiquity'' ''test-repo'' (Finite 3)
        = Inl (Error ''Bad gateway'')
   \<and> checkIfPrClosesIssues
        (sample_context\<lparr>graphql_closedByPullRequestsReferences :=
           (\<lambda>owner repo n. Inl (Error ''Bad gateway''))\<rparr>) ''ubiquity'' ''test-repo'' (Finite 3) []
        = (Inr \<lparr>closesIssues = False, issues = []\<rparr>,
           [GraphqlClosingIssues ''ubiquity'' ''test-repo'' (Finite 3)])
   \<and> checkIfPrClosesIssues sample_context ''ubiquity'' ''test-repo'' (Finite 0) []
        = (Inl (Error ''[checkIfPrClosesIssues]: pr_number is required''), [])"
  using checkIfPrClosesIssues_zero_and_failure
          [of "sample_context\<lparr>graphql_closedByPullRequestsReferences :=
                 (\<lambda>owner repo n. Inl (Error ''Bad gateway''))\<rparr>"
              "''ubiquity''" "''test-repo''" "[]" "Finite 3" "Error ''Bad gateway''"]
        checkIfPrClosesIssues_zero_and_failure
          [of sample_context "''ubiquity''" "''test-repo''" "[]"]
  by (simp add: falsy_def)

subsection \<open>Review throttle\<close>

text \<open>
  What \<open>canPerformReview\<close> computes from a fetched timeline, with the two filters of
  the source merged into one and the last element read by \<open>last\<close>.
\<close>

lemma canPerformReview_cases:
  assumes "listEvents ctx (payload_repository_owner_login ctx) (payload_repository_name ctx)
             (payload_number ctx) = Inr timeline"
  shows "canPerformReview ctx tr =
     (let botReviews = filter (\<lambda>e. event e = ''reviewed'' \<and> actor_type e = ''Bot'') timeline
      in if botReviews = [] then Inr True
         else if js_lt (js_minus (Finite (now ctx)) (Date_getTime ctx (created_at (last botReviews))))
                  (Finite 86400000)
              then Inl (LogReturn ''Only one review per day is allowed'' None)
              else Inr True,
      tr @ [ListEvents (payload_repository_owner_login ctx) (payload_repository_name ctx)
             (payload_number ctx)])"
  using assms
  by (simp add: canPerformReview_def task_defs Let_def oneDay_def last_conv_nth)

text \<open>
  Claim C4. From the fetched timeline \<open>canPerformReview\<close> keeps the events of kind
  \<open>reviewed\<close> whose actor type is \<open>Bot\<close>. When none is left it returns true; when the
  last one is less than 24 hours (86400000 ms) old it raises the fatal error; when the
  last one is 24 hours old or older it returns true. In each case the timeline fetch is
  the only call.
\<close>

theorem canPerformReview_throttle:
  assumes "listEvents ctx (payload_repository_owner_login ctx) (payload_repository_name ctx)
             (payload_number ctx) = Inr timeline"
    and "botReviews = filter (\<lambda>e. event e = ''reviewed'' \<and> actor_type e = ''Bot'') timeline"
    and "tr' = tr @ [ListEvents (payload_repository_owner_login ctx)
                       (payload_repository_name ctx) (payload_number ctx)]"
  shows "(botReviews = [] \<longrightarrow> canPerformReview ctx tr = (Inr True, tr'))
    \<and> (botReviews \<noteq> [] \<longrightarrow> Date_getTime ctx (created_at (last botReviews)) = Finite t \<longrightarrow>
         now ctx - t < 86400000 \<longrightarrow>
         canPerformReview ctx tr = (Inl (LogReturn ''Only one review per day is allowed'' None), tr'))
    \<and> (botReviews \<noteq> [] \<longrightarrow> Date_getTime ctx (created_at (last botReviews)) = Finite t \<longrightarrow>
         now ctx - t \<ge> 86400000 \<longrightarrow>
         canPerformReview ctx tr = (Inr True, tr'))"
  using canPerformReview_cases[OF assms(1), of tr] assms(2,3)
  by (auto simp: Let_def)

text \<open>
  Three timelines on the sample context: no bot review; a bot review 12 hours old after
  one 36 hours old; a bot review exactly 24 hours old after one 12 hours old.
\<close>

theorem canPerformReview_throttle_witness:
  "canPerformReview
     (sample_context\<lparr>listEvents := (\<lambda>owner repo n.
        Inr [\<lparr>event = ''labeled'', actor_type = ''Bot'', created_at = ''1970-01-02T12:00:00Z''\<rparr>,
             \<lparr>event = ''reviewed'', actor_type = ''User'', created_at = ''1970-01-02T12:00:00Z''\<rparr>])\<rparr>) []
     = (Inr True, [ListEvents ''ubiquity'' ''test-repo'' (Finite 3)])
   \<and> canPerformReview
       (sample_context\<lparr>listEvents := (\<lambda>owner repo n.
          Inr [botReviewAt ''1970-01-01T12:00:00Z'', botReviewAt ''1970-01-02T12:00:00Z''])\<rparr>) []
     = (Inl (LogReturn ''Only one review per day is allowed'' None),
        [ListEvents ''ubiquity'' ''test-repo'' (Finite 3)])
   \<and> canPerformReview
       (sample_context\<lparr>listEvents := (\<lambda>owner repo n.
          Inr [botReviewAt ''1970-01-02T12:00:00Z'', botReviewAt ''1970-01-02T00:00:00Z''])\<rparr>) []
     = (Inr True, [ListEvents ''ubiquity'' ''test-repo'' (Finite 3)])"
proof -
  let ?ev = "ListEvents ''ubiquity'' ''test-repo'' (Finite 3)"
  let ?t1 = "[\<lparr>event = ''labeled'', actor_type = ''Bot'', created_at = ''1970-01-02T12:00:00Z''\<rparr>,
             \<lparr>event = ''reviewed'', actor_type = ''User'', created_at = ''1970-01-02T12:00:00Z''\<rparr>]"
  let ?t2 = "[botReviewAt ''1970-01-01T12:00:00Z'', botReviewAt ''1970-01-02T12:00:00Z'']"
  let ?t3 = "[botReviewAt ''1970-01-02T12:00:00Z'', botReviewAt ''1970-01-02T00:00:00Z'']"
  let ?c1 = "sample_context\<lparr>listEvents := (\<lambda>owner repo n. Inr ?t1)\<rparr>"
  let ?c2 = "sample_context\<lparr>listEvents := (\<lambda>owner repo n. Inr ?t2)\<rparr>"
  let ?c3 = "sample_context\<lparr>listEvents := (\<lambda>owner repo n. Inr ?t3)\<rparr>"
  have a: "canPerformReview ?c1 [] = (Inr True, [?ev])"
    using canPerformReview_throttle[of ?c1 ?t1 "[]" "[?ev]" "[]"]
    by (simp add: sample_defs)
  have b: "canPerformReview ?c2 []
            = (Inl (LogReturn ''Only one review per day is allowed'' None), [?ev])"
    using canPerformReview_throttle[of ?c2 ?t2 ?t2 "[?ev]" "[]" 129600000]
    by (simp add: sample_defs)
  have c: "canPerformReview ?c3 [] = (Inr True, [?ev])"
    using canPerformReview_throttle[of ?c3 ?t3 ?t3 "[?ev]" "[]" 86400000]
    by (simp add: sample_defs)
  from a b c show ?thesis by simp
qed

subsection \<open>Precheck\<close>

text \<open>
  \<open>canPerformReview\<close> ends in a thrown value or in true; \<open>handleCodeReview\<close> never
  answers with the reason of the precheck's third branch; and the precheck, with that
  branch taken out, is the same function.
\<close>

lemma canPerformReview_outcome:
  "(\<exists>e tr'. canPerformReview ctx tr = (Inl e, tr')) \<or> (\<exists>tr'. canPerformReview ctx tr = (Inr True, tr'))"
  by (cases "listEvents ctx (payload_repository_owner_login ctx) (payload_repository_name ctx)
             (payload_number ctx)")
     (simp_all add: canPerformReview_def task_defs Let_def)

lemma handleCodeReview_reason:
  "fst (handleCodeReview ctx tr)
     \<noteq> Inr \<lparr>status = 200, reason = ''Cannot perform review at this time''\<rparr>"
  by (auto simp: handleCodeReview_def task_defs split: sum.splits prod.splits if_splits)

lemma performPullPrecheck_branches:
  "performPullPrecheck ctx tr =
     (if draft (payload_pull_request ctx) then
        (Inr \<lparr>status = 200, reason = ''PR is in draft mode, no action required''\<rparr>, tr)
      else if state (payload_pull_request ctx) = ''closed'' then
        (Inr \<lparr>status = 200, reason = ''PR is closed, no action required''\<rparr>, tr)
      else andThen (canPerformReview ctx) (\<lambda>allowed. handleCodeReview ctx) tr)"
proof -
  have "andThen (canPerformReview ctx)
          (\<lambda>allowed. if \<not> allowed
             then resolve \<lparr>status = 200,
                    reason = logger_info_raw ''Cannot perform review at this time''\<rparr>
             else handleCodeReview ctx) tr
        = andThen (canPerformReview ctx) (\<lambda>allowed. handleCodeReview ctx) tr"
    using canPerformReview_outcome[of ctx tr] by (auto simp: andThen_def)
  then show ?thesis
    unfolding performPullPrecheck_def by (simp add: resolve_def logger_info_raw_def)
qed

text \<open>
  Claim C10. \<open>canPerformReview\<close> never returns false: it throws or returns true. So the
  branch of \<open>performPullPrecheck\<close> behind \<^verbatim>\<open>!(await this.canPerformReview())\<close> is
  never taken: the precheck equals the precheck without that branch, and its answer is
  never \<^verbatim>\<open>{status: 200, reason: "Cannot perform review at this time"}\<close>. When the
  pull request is neither a draft nor closed and the last bot review is less than 24
  hours old, the precheck ends in the thrown "Only one review per day is allowed".
\<close>

theorem canPerformReview_never_false:
  "((\<exists>e. fst (canPerformReview ctx tr) = Inl e) \<or> fst (canPerformReview ctx tr) = Inr True)
   \<and> performPullPrecheck ctx tr =
       (if draft (payload_pull_request ctx) then
          (Inr \<lparr>status = 200, reason = ''PR is in draft mode, no action required''\<rparr>, tr)
        else if state (payload_pull_request ctx) = ''closed'' then
          (Inr \<lparr>status = 200, reason = ''PR is closed, no action required''\<rparr>, tr)
        else andThen (canPerformReview ctx) (\<lambda>allowed. handleCodeReview ctx) tr)
   \<and> fst (performPullPrecheck ctx tr)
        \<noteq> Inr \<lparr>status = 200, reason = ''Cannot perform review at this time''\<rparr>
   \<and> (\<not> draft (payload_pull_request ctx) \<longrightarrow> state (payload_pull_request ctx) \<noteq> ''closed'' \<longrightarrow>
        listEvents ctx (payload_repository_owner_login ctx) (payload_repository_name ctx)
          (payload_number ctx) = Inr timeline \<longrightarrow>
        filter (\<lambda>e. event e = ''reviewed'' \<and> actor_type e = ''Bot'') timeline \<noteq> [] \<longrightarrow>
        Date_getTime ctx
          (created_at (last (filter (\<lambda>e. event e = ''reviewed'' \<and> actor_type e = ''Bot'') timeline)))
          = Finite t \<longrightarrow>
        now ctx - t < 86400000 \<longrightarrow>
        performPullPrecheck ctx tr
          = (Inl (LogReturn ''Only one review per day is allowed'' None),
             tr @ [ListEvents (payload_repository_owner_login ctx) (payload_repository_name ctx)
                     (payload_number ctx)]))"
proof -
  have a: "(\<exists>e. fst (canPerformReview ctx tr) = Inl e) \<or> fst (canPerformReview ctx tr) = Inr True"
    using canPerformReview_outcome[of ctx tr] by auto
  have d: "fst (performPullPrecheck ctx tr)
        \<noteq> Inr \<lparr>status = 200, reason = ''Cannot perform review at this time''\<rparr>"
    unfolding performPullPrecheck_branches
    using handleCodeReview_reason canPerformReview_outcome[of ctx tr]
    by (auto simp: andThen_def)
  have e: "performPullPrecheck ctx tr
          = (Inl (LogReturn ''Only one review per day is allowed'' None),
             tr @ [ListEvents (payload_repository_owner_login ctx) (payload_repository_name ctx)
                     (payload_number ctx)])"
    if "\<not> draft (payload_pull_request ctx)" "state (payload_pull_request ctx) \<noteq> ''closed''"
       "listEvents ctx (payload_repository_owner_login ctx) (payload_repository_name ctx)
          (payload_number ctx) = Inr timeline"
       "filter (\<lambda>e. event e = ''reviewed'' \<and> actor_type e = ''Bot'') timeline \<noteq> []"
       "Date_getTime ctx
          (created_at (last (filter (\<lambda>e. event e = ''reviewed'' \<and> actor_type e = ''Bot'') timeline)))
          = Finite t"
       "now ctx - t < 86400000"
    unfolding performPullPrecheck_branches
    using that canPerformReview_cases[OF that(3), of tr]
    by (simp add: andThen_def Let_def)
  from a d e performPullPrecheck_branches[of ctx tr] show ?thesis by blast
qed

text \<open>The sample pull request with one bot review 12 hours old.\<close>

theorem canPerformReview_never_false_witness:
  "performPullPrecheck
     (sample_context\<lparr>listEvents := (\<lambda>owner repo n. Inr [botReviewAt ''1970-01-02T12:00:00Z''])\<rparr>) []
   = (Inl (LogReturn ''Only one review per day is allowed'' None),
      [ListEvents ''ubiquity'' ''test-repo'' (Finite 3)])"
  using canPerformReview_never_false
    [of "sample_context\<lparr>listEvents := (\<lambda>owner repo n. Inr [botReviewAt ''1970-01-02T12:00:00Z''])\<rparr>"
        "[]" "[botReviewAt ''1970-01-02T12:00:00Z'']" 129600000,
     THEN conjunct2, THEN conjunct2, THEN conjunct2]
  by (simp add: sample_defs)

text \<open>
  Claim C1. The claim has the precheck answer status 200 with a reason when the throttle
  denies the review. On the sample pull request (open, not a draft) with one bot review
  12 hours old the precheck answers nothing: it ends in the thrown value of
  \<open>canPerformReview\<close>, after the timeline fetch.
\<close>

theorem performPullPrecheck_throttled_throws:
  "\<not> draft (payload_pull_request sample_context)
   \<and> state (payload_pull_request sample_context) = ''open''
   \<and> sampleDate_getTime ''1970-01-02T12:00:00Z'' = Finite 129600000
   \<and> now sample_context - 129600000 = 12 * 60 * 60 * 1000
   \<and> performPullPrecheck
       (sample_context\<lparr>listEvents := (\<lambda>owner repo n. Inr [botReviewAt ''1970-01-02T12:00:00Z''])\<rparr>) []
     = (Inl (LogReturn ''Only one review per day is allowed'' None),
        [ListEvents ''ubiquity'' ''test-repo'' (Finite 3)])"
  by (simp add: sample_defs performPullPrecheck_def canPerformReview_def task_defs oneDay_def)

text \<open>
  Claim C9, as stated, at a closed pull request that is also a draft: the draft branch
  comes first, and its reason does not mention "closed".
\<close>

theorem performPullPrecheck_closed_draft_counterexample:
  "state (payload_pull_request
       (sample_context\<lparr>payload_pull_request :=
          sample_pull_request\<lparr>draft := True, state := ''closed''\<rparr>\<rparr>)) = ''closed''
   \<and> performPullPrecheck
       (sample_context\<lparr>payload_pull_request :=
          sample_pull_request\<lparr>draft := True, state := ''closed''\<rparr>\<rparr>) []
     = (Inr \<lparr>status = 200, reason = ''PR is in draft mode, no action required''\<rparr>, [])
   \<and> \<not> sublist ''closed'' ''PR is in draft mode, no action required''"
  by (simp add: sample_defs performPullPrecheck_def task_defs logger_info_raw_def
        sublist_Cons_right)

text \<open>
  Claim C9, amended. For every pull request with \<open>draft = true\<close> the precheck returns
  status 200 with the reason "PR is in draft mode, no action required", and for every
  pull request with \<open>draft = false\<close> and \<open>state = "closed"\<close> it returns status 200 with
  the reason "PR is closed, no action required"; in both cases the trace is unchanged:
  no timeline fetch, no draft conversion, no review submission, no completion call. The
  first reason mentions "draft mode", the second "closed".
\<close>

theorem performPullPrecheck_draft_closed:
  "(draft (payload_pull_request ctx) \<longrightarrow>
      performPullPrecheck ctx tr
        = (Inr \<lparr>status = 200, reason = ''PR is in draft mode, no action required''\<rparr>, tr))
   \<and> (\<not> draft (payload_pull_request ctx) \<longrightarrow> state (payload_pull_request ctx) = ''closed'' \<longrightarrow>
      performPullPrecheck ctx tr
        = (Inr \<lparr>status = 200, reason = ''PR is closed, no action required''\<rparr>, tr))
   \<and> sublist ''draft mode'' ''PR is in draft mode, no action required''
   \<and> sublist ''closed'' ''PR is closed, no action required''"
  by (simp add: performPullPrecheck_def task_defs logger_info_raw_def sublist_Cons_right)

text \<open>The sample pull request as a draft, and closed.\<close>

theorem performPullPrecheck_draft_closed_witness:
  "performPullPrecheck
     (sample_context\<lparr>payload_pull_request := sample_pull_request\<lparr>draft := True\<rparr>\<rparr>) []
     = (Inr \<lparr>status = 200, reason = ''PR is in draft mode, no action required''\<rparr>, [])
   \<and> performPullPrecheck
     (sample_context\<lparr>payload_pull_request := sample_pull_request\<lparr>state := ''closed''\<rparr>\<rparr>) []
     = (Inr \<lparr>status = 200, reason = ''PR is closed, no action required''\<rparr>, [])"
  using performPullPrecheck_draft_closed
          [of "sample_context\<lparr>payload_pull_request := sample_pull_request\<lparr>draft := True\<rparr>\<rparr>" "[]"]
        performPullPrecheck_draft_closed
          [of "sample_context\<lparr>payload_pull_request := sample_pull_request\<lparr>state := ''closed''\<rparr>\<rparr>" "[]"]
  by (simp add: sample_defs)

subsection \<open>Verdict parsing\<close>

text \<open>
  The outcome on a parsed object, and on anything else: a parser failure, or a parsed
  value that is not an object (which has neither property, or cannot be destructured).
\<close>

lemma parsePullReviewData_object:
  assumes "parseLooseJson ctx input = Inr (JObject kvs)"
  shows "parsePullReviewData ctx input tr =
     (if \<not> numericOrNumericString ctx (property kvs ''confidenceThreshold'')
      then Inl (LogReturn ''Couldn't parse JSON output; Aborting''
                  (Some (LogReturn ''Invalid or missing confidenceThreshold'' None)))
      else case property kvs ''reviewComment'' of
             JString comment \<Rightarrow>
               Inr \<lparr>confidenceThreshold = Number_of ctx (property kvs ''confidenceThreshold''),
                    reviewComment = comment\<rparr>
           | _ \<Rightarrow> Inl (LogReturn ''Couldn't parse JSON output; Aborting''
                         (Some (LogReturn ''Invalid or missing reviewComment'' None))),
      tr)"
  using assms
  by (cases "property kvs ''confidenceThreshold''"; cases "property kvs ''reviewComment''")
     (simp_all add: parsePullReviewData_def task_defs numericOrNumericString_def isNaN_def)

lemma parsePullReviewData_other:
  assumes "\<forall>kvs. parseLooseJson ctx input \<noteq> Inr (JObject kvs)"
  shows "\<exists>e. parsePullReviewData ctx input tr =
           (Inl (LogReturn ''Couldn't parse JSON output; Aborting'' (Some e)), tr)"
proof (cases "parseLooseJson ctx input")
  case (Inl e)
  then show ?thesis by (simp add: parsePullReviewData_def task_defs)
next
  case (Inr parsed)
  with assms show ?thesis
    by (cases parsed) (simp_all add: parsePullReviewData_def task_defs)
qed

text \<open>
  Claim C8. When the loosely parsed input is an object whose \<open>confidenceThreshold\<close> is a
  number or a numeric string and whose \<open>reviewComment\<close> is a string,
  \<open>parsePullReviewData\<close> returns \<open>Number(confidenceThreshold)\<close> with the comment. In
  every other case (also a missing property, which reads as \<^verbatim>\<open>undefined\<close>) it raises
  an error, the "Couldn't parse JSON output; Aborting" wrapper of the cause, and returns
  no default. When the loose parser reads \<^verbatim>\<open>{confidenceThreshold: 1, reviewComment: 'passed'}\<close>
  as the object of these two properties, the result is threshold 1 with comment "passed".
\<close>

theorem parsePullReviewData_validates:
  "(parseLooseJson ctx input = Inr (JObject kvs) \<longrightarrow>
      numericOrNumericString ctx (property kvs ''confidenceThreshold'') \<longrightarrow>
      property kvs ''reviewComment'' = JString comment \<longrightarrow>
      parsePullReviewData ctx input tr =
        (Inr \<lparr>confidenceThreshold = Number_of ctx (property kvs ''confidenceThreshold''),
              reviewComment = comment\<rparr>, tr))
   \<and> (\<not> (\<exists>kvs comment. parseLooseJson ctx input = Inr (JObject kvs)
           \<and> numericOrNumericString ctx (property kvs ''confidenceThreshold'')
           \<and> property kvs ''reviewComment'' = JString comment) \<longrightarrow>
        (\<exists>e. parsePullReviewData ctx input tr =
           (Inl (LogReturn ''Couldn't parse JSON output; Aborting'' (Some e)), tr)))
   \<and> (parseLooseJson ctx ''{confidenceThreshold: 1, reviewComment: 'passed'}''
         = Inr (JObject [(''confidenceThreshold'', JNumber (Finite 1)),
                         (''reviewComment'', JString ''passed'')]) \<longrightarrow>
        parsePullReviewData ctx ''{confidenceThreshold: 1, reviewComment: 'passed'}'' tr =
          (Inr \<lparr>confidenceThreshold = Finite 1, reviewComment = ''passed''\<rparr>, tr))"
proof (intro conjI impI)
  assume "parseLooseJson ctx input = Inr (JObject kvs)"
    "numericOrNumericString ctx (property kvs ''confidenceThreshold'')"
    "property kvs ''reviewComment'' = JString comment"
  then show "parsePullReviewData ctx input tr =
        (Inr \<lparr>confidenceThreshold = Number_of ctx (property kvs ''confidenceThreshold''),
              reviewComment = comment\<rparr>, tr)"
    by (simp add: parsePullReviewData_object)
next
  assume inv: "\<not> (\<exists>kvs comment. parseLooseJson ctx input = Inr (JObject kvs)
           \<and> numericOrNumericString ctx (property kvs ''confidenceThreshold'')
           \<and> property kvs ''reviewComment'' = JString comment)"
  show "\<exists>e. parsePullReviewData ctx input tr =
           (Inl (LogReturn ''Couldn't parse JSON output; Aborting'' (Some e)), tr)"
  proof (cases "\<exists>kvs. parseLooseJson ctx input = Inr (JObject kvs)")
    case True
    then obtain kvs where p: "parseLooseJson ctx input = Inr (JObject kvs)" by blast
    with inv have "\<not> numericOrNumericString ctx (property kvs ''confidenceThreshold'')
        \<or> (\<forall>comment. property kvs ''reviewComment'' \<noteq> JString comment)" by blast
    then show ?thesis
      by (auto simp: parsePullReviewData_object[OF p] split: json.splits)
  next
    case False
    then show ?thesis using parsePullReviewData_other[of ctx input tr] by blast
  qed
next
  assume "parseLooseJson ctx ''{confidenceThreshold: 1, reviewComment: 'passed'}''
         = Inr (JObject [(''confidenceThreshold'', JNumber (Finite 1)),
                         (''reviewComment'', JString ''passed'')])"
  then show "parsePullReviewData ctx ''{confidenceThreshold: 1, reviewComment: 'passed'}'' tr =
          (Inr \<lparr>confidenceThreshold = Finite 1, reviewComment = ''passed''\<rparr>, tr)"
    by (simp add: parsePullReviewData_object property_def numericOrNumericString_def)
qed

lemmas parse_sample_defs = sampleParseLooseJson_def MOCK_ANSWER_PASSED_def verdict_def
  property_def numericOrNumericString_def sampleStringToNumber_def isDigit_def digitValue_def

text \<open>
  On the sample parser: a numeric string as threshold, a missing comment, and the mock
  answer of the tests.
\<close>

theorem parsePullReviewData_validates_witness:
  "parsePullReviewData sample_context ''{confidenceThreshold: '1', reviewComment: 'passed'}'' []
     = (Inr \<lparr>confidenceThreshold = Finite 1, reviewComment = ''passed''\<rparr>, [])
   \<and> (\<exists>e. parsePullReviewData sample_context ''{confidenceThreshold: 1}'' []
        = (Inl (LogReturn ''Couldn't parse JSON output; Aborting'' (Some e)), []))
   \<and> parsePullReviewData sample_context ''{confidenceThreshold: 1, reviewComment: 'passed'}'' []
     = (Inr \<lparr>confidenceThreshold = Finite 1, reviewComment = ''passed''\<rparr>, [])"
proof -
  have a: "parsePullReviewData sample_context
             ''{confidenceThreshold: '1', reviewComment: 'passed'}'' []
     = (Inr \<lparr>confidenceThreshold = Finite 1, reviewComment = ''passed''\<rparr>, [])"
    using parsePullReviewData_validates
      [of sample_context "''{confidenceThreshold: '1', reviewComment: 'passed'}''"
          "[(''confidenceThreshold'', JString ''1''), (''reviewComment'', JString ''passed'')]"
          "''passed''" "[]", THEN conjunct1]
    by (simp add: sample_context_def parse_sample_defs)
  have b: "\<exists>e. parsePullReviewData sample_context ''{confidenceThreshold: 1}'' []
        = (Inl (LogReturn ''Couldn't parse JSON output; Aborting'' (Some e)), [])"
    using parsePullReviewData_validates
      [of sample_context "''{confidenceThreshold: 1}''" _ _ "[]", THEN conjunct2, THEN conjunct1]
    by (simp add: sample_context_def parse_sample_defs)
  have c: "parsePullReviewData sample_context
             ''{confidenceThreshold: 1, reviewComment: 'passed'}'' []
     = (Inr \<lparr>confidenceThreshold = Finite 1, reviewComment = ''passed''\<rparr>, [])"
    using parsePullReviewData_validates
      [of sample_context _ _ _ "[]", THEN conjunct2, THEN conjunct2]
    by (simp add: sample_context_def parse_sample_defs)
  from a b c show ?thesis by blast
qed

lemmas method_defs = handleCodeReview_def reviewPull_def getTaskNumberFromPullRequest_def
  checkIfPrClosesIssues_def convertPullToDraft_def submitCodeReview_def parsePullReviewData_def
  collectGroundTruths_def ownKeys_def promiseAll_def matchHashDigits_def replaceHash_def
  falsy_def js_gt_def isNaN_def Let_def

lemmas eval_defs = method_defs task_defs sample_defs parse_sample_defs sampleNode_def

subsection \<open>Task linker\<close>

text \<open>
  Every match of the pattern is a \<open>#\<close> with a non-empty run of digits; a closing-reference
  check that returns has made exactly the query.
\<close>

lemma matchAllHashDigits_head:
  "matchAllHashDigits s = m # ms \<Longrightarrow>
     \<exists>ds. m = CHR ''#'' # ds \<and> ds \<noteq> [] \<and> list_all isDigit ds"
proof (induction s rule: matchAllHashDigits.induct)
  case 1
  then show ?case by simp
next
  case (2 c cs)
  then show ?case
    by (auto simp: list_all_iff split: if_splits dest: set_takeWhileD)
qed

text \<open>
  The pattern finds the first token: when no \<open>#\<close> before it is followed by a digit, a
  \<open>#\<close> with its full run of digits is the first match, and the search resumes behind it.
\<close>

lemma takeWhile_digits:
  assumes "list_all isDigit ds" "rest = [] \<or> \<not> isDigit (hd rest)"
  shows "takeWhile isDigit (ds @ rest) = ds" "dropWhile isDigit (ds @ rest) = rest"
  using assms by (cases rest; simp add: list_all_iff takeWhile_append2 dropWhile_append2)+

lemma matchAllHashDigits_first:
  assumes "\<forall>i. Suc i < length pre \<longrightarrow> pre ! i = CHR ''#'' \<longrightarrow> \<not> isDigit (pre ! Suc i)"
    and "ds \<noteq> []" and "list_all isDigit ds" and "rest = [] \<or> \<not> isDigit (hd rest)"
  shows "matchAllHashDigits (pre @ CHR ''#'' # ds @ rest)
           = (CHR ''#'' # ds) # matchAllHashDigits rest"
  using assms(1)
proof (induction pre)
  case Nil
  show ?case using assms(2-4) by (simp add: takeWhile_digits)
next
  case (Cons c pre)
  have ih: "matchAllHashDigits (pre @ CHR ''#'' # ds @ rest)
           = (CHR ''#'' # ds) # matchAllHashDigits rest"
  proof (rule Cons.IH, intro allI impI)
    fix i assume "Suc i < length pre" "pre ! i = CHR ''#''"
    then show "\<not> isDigit (pre ! Suc i)"
      using Cons.prems[rule_format, of "Suc i"] by simp
  qed
  have nd: "\<not> isDigit (CHR ''#'')" by (simp add: isDigit_def)
  have "c = CHR ''#'' \<Longrightarrow> takeWhile isDigit (pre @ CHR ''#'' # ds @ rest) = []"
  proof (cases pre)
    case Nil
    then show ?thesis using nd by simp
  next
    case (Cons p ps)
    assume "c = CHR ''#''"
    then have "\<not> isDigit p" using Cons.prems[rule_format, of 0] Cons by simp
    then show ?thesis using Cons by simp
  qed
  then show ?case using ih by auto
qed

lemma checkIfPrClosesIssues_trace:
  "checkIfPrClosesIssues ctx owner repo n tr = (Inr res, tr1) \<Longrightarrow>
     tr1 = tr @ [GraphqlClosingIssues owner repo n]"
  by (auto simp: checkIfPrClosesIssues_def task_defs Let_def split: if_splits sum.splits)

text \<open>
  Claim C3, as stated, at two pull requests without closing references. With the body
  "Fixes #0" the first token resolves to 0 and the function raises "Task number not
  found" instead of falling back to it. With the body "No task" and a rejected
  draft-conversion mutation the function raises the conversion failure, not the "must
  link an issue" error.
\<close>

theorem getTaskNumberFromPullRequest_counterexample:
  "matchAllHashDigits ''Fixes #0'' = [''#0'']
   \<and> getTaskNumberFromPullRequest
       (sample_context\<lparr>payload_pull_request := sample_pull_request\<lparr>body := Some ''Fixes #0''\<rparr>\<rparr>) []
     = (Inl (LogReturn ''Task number not found'' None),
        [GraphqlClosingIssues ''ubiquity'' ''test-repo'' (Finite 3)])
   \<and> matchAllHashDigits ''No task'' = []
   \<and> getTaskNumberFromPullRequest
       (sample_context\<lparr>payload_pull_request := sample_pull_request\<lparr>body := Some ''No task''\<rparr>,
          graphql_convertPullRequestToDraft := (\<lambda>nodeId. Inl (Error ''Forbidden''))\<rparr>) []
     = (Inl (LogReturn ''Failed to convert pull request to draft mode: ''
               (Some (Error ''Forbidden''))),
        [GraphqlClosingIssues ''ubiquity'' ''test-repo'' (Finite 3),
         GraphqlConvertToDraft ''PR_node_3''])"
  by (simp add: method_defs task_defs sample_defs parse_sample_defs)

text \<open>
  Claim C3, amended. Once the closing-reference check has returned:
  with exactly one closing reference the function returns that issue's number, when it is
  truthy; with none it returns \<open>Number\<close> of the digits of the first \<open>#<digits>\<close> token of
  the body, when that is truthy; in both cases a falsy number (0, NaN) raises "Task number
  not found". With no closing reference and no token (or no body) it calls the draft
  conversion and raises "must link an issue" when the conversion succeeded, the conversion
  failure otherwise. With more than one closing reference it raises "multiple tasks
  linked" with the closing-reference query as its only call, and \<open>reviewPull\<close> stops
  there: the completion client is never called.
\<close>

theorem getTaskNumberFromPullRequest_cases:
  assumes "pr = payload_pull_request ctx"
    and "checkIfPrClosesIssues ctx (base_repo_owner_login pr) (base_repo_name pr)
           (pr_number pr) tr = (Inr res, tr1)"
  shows "(issues res = [i] \<longrightarrow> \<not> falsy (number i) \<longrightarrow>
            getTaskNumberFromPullRequest ctx tr = (Inr (number i), tr1))
     \<and> (issues res = [] \<longrightarrow> body pr = Some b \<longrightarrow>
          matchAllHashDigits b = (CHR ''#'' # ds) # ms \<longrightarrow> \<not> falsy (StringToNumber ctx ds) \<longrightarrow>
            getTaskNumberFromPullRequest ctx tr = (Inr (StringToNumber ctx ds), tr1))
     \<and> (issues res = [i] \<and> falsy (number i)
          \<or> issues res = [] \<and> body pr = Some b \<and> matchAllHashDigits b = (CHR ''#'' # ds) # ms
             \<and> falsy (StringToNumber ctx ds) \<longrightarrow>
            getTaskNumberFromPullRequest ctx tr
              = (Inl (LogReturn ''Task number not found'' None), tr1))
     \<and> (issues res = [] \<longrightarrow> body pr = None \<or> body pr = Some b \<and> matchAllHashDigits b = [] \<longrightarrow>
            getTaskNumberFromPullRequest ctx tr
              = (case graphql_convertPullRequestToDraft ctx (node_id pr) of
                   Inr u \<Rightarrow> Inl (LogReturn
                          ''You need to link an issue and after that convert the PR to ready for review''
                          None)
                 | Inl e \<Rightarrow>
                     Inl (LogReturn ''Failed to convert pull request to draft mode: '' (Some e)),
                 tr1 @ [GraphqlConvertToDraft (node_id pr)]))
     \<and> (length (issues res) > 1 \<longrightarrow>
            getTaskNumberFromPullRequest ctx tr = (Inl (LogReturn
                 ''Multiple tasks linked to this PR, needs investigated to see how best to handle it.''
                 None), tr1)
            \<and> reviewPull ctx tr = (Inl (LogReturn
                 ''Multiple tasks linked to this PR, needs investigated to see how best to handle it.''
                 None), tr1)
            \<and> filter isCompletionClientCall tr1 = filter isCompletionClientCall tr)"
proof -
  have t: "tr1 = tr @ [GraphqlClosingIssues (base_repo_owner_login pr) (base_repo_name pr)
                        (pr_number pr)]"
    using assms(2) by (rule checkIfPrClosesIssues_trace)
  have g: "getTaskNumberFromPullRequest ctx tr =
     andThen
       (if length (issues res) = 0 then
          (case (case body pr of None \<Rightarrow> None | Some b \<Rightarrow> matchHashDigits b) of
             Some (m # ms) \<Rightarrow> resolve (StringToNumber ctx (replaceHash m))
           | _ \<Rightarrow> andThen (convertPullToDraft ctx (node_id pr))
                   (\<lambda>u. reject (LogReturn
                          ''You need to link an issue and after that convert the PR to ready for review''
                          None)))
        else if length (issues res) > 1 then reject (LogReturn
                 ''Multiple tasks linked to this PR, needs investigated to see how best to handle it.''
                 None)
        else resolve (number (issues res ! 0)))
       (\<lambda>issueNumber. if falsy issueNumber
          then reject (LogReturn ''Task number not found'' None) else resolve issueNumber) tr1"
    using assms(2) unfolding assms(1)
    by (simp add: getTaskNumberFromPullRequest_def andThen_def Let_def)
  have c1: "issues res = [i] \<longrightarrow> \<not> falsy (number i) \<longrightarrow>
            getTaskNumberFromPullRequest ctx tr = (Inr (number i), tr1)"
    by (simp add: g task_defs)
  have c2: "issues res = [] \<longrightarrow> body pr = Some b \<longrightarrow>
          matchAllHashDigits b = (CHR ''#'' # ds) # ms \<longrightarrow> \<not> falsy (StringToNumber ctx ds) \<longrightarrow>
            getTaskNumberFromPullRequest ctx tr = (Inr (StringToNumber ctx ds), tr1)"
    by (simp add: g task_defs matchHashDigits_def replaceHash_def)
  have c3: "issues res = [i] \<and> falsy (number i)
          \<or> issues res = [] \<and> body pr = Some b \<and> matchAllHashDigits b = (CHR ''#'' # ds) # ms
             \<and> falsy (StringToNumber ctx ds) \<longrightarrow>
            getTaskNumberFromPullRequest ctx tr
              = (Inl (LogReturn ''Task number not found'' None), tr1)"
    by (auto simp: g task_defs matchHashDigits_def replaceHash_def)
  have c4: "issues res = [] \<longrightarrow> body pr = None \<or> body pr = Some b \<and> matchAllHashDigits b = [] \<longrightarrow>
            getTaskNumberFromPullRequest ctx tr
              = (case graphql_convertPullRequestToDraft ctx (node_id pr) of
                   Inr u \<Rightarrow> Inl (LogReturn
                          ''You need to link an issue and after that convert the PR to ready for review''
                          None)
                 | Inl e \<Rightarrow>
                     Inl (LogReturn ''Failed to convert pull request to draft mode: '' (Some e)),
                 tr1 @ [GraphqlConvertToDraft (node_id pr)])"
    by (auto simp: g task_defs matchHashDigits_def convertPullToDraft_def split: sum.splits)
  have c5: "length (issues res) > 1 \<longrightarrow>
            getTaskNumberFromPullRequest ctx tr = (Inl (LogReturn
                 ''Multiple tasks linked to this PR, needs investigated to see how best to handle it.''
                 None), tr1)"
    by (simp add: g task_defs)
  have c6: "length (issues res) > 1 \<longrightarrow>
            reviewPull ctx tr = (Inl (LogReturn
                 ''Multiple tasks linked to this PR, needs investigated to see how best to handle it.''
                 None), tr1)"
    using c5 by (simp add: reviewPull_def andThen_def)
  have c7: "filter isCompletionClientCall tr1 = filter isCompletionClientCall tr"
    by (simp add: t)
  from c1 c2 c3 c4 c5 c6 c7 show ?thesis by blast
qed

text \<open>
  On the sample context: one closing reference (issue 7); none, with the body
  "Resolves #1"; none, with the body "Fixes #0"; none, without a body; two closing
  references.
\<close>

theorem getTaskNumberFromPullRequest_cases_witness:
  "getTaskNumberFromPullRequest
     (sample_context\<lparr>graphql_closedByPullRequestsReferences :=
        (\<lambda>owner repo n. Inr [sampleNode 7])\<rparr>) []
     = (Inr (Finite 7), [GraphqlClosingIssues ''ubiquity'' ''test-repo'' (Finite 3)])
   \<and> getTaskNumberFromPullRequest sample_context []
     = (Inr (Finite 1), [GraphqlClosingIssues ''ubiquity'' ''test-repo'' (Finite 3)])
   \<and> getTaskNumberFromPullRequest
       (sample_context\<lparr>payload_pull_request := sample_pull_request\<lparr>body := Some ''Fixes #0''\<rparr>\<rparr>) []
     = (Inl (LogReturn ''Task number not found'' None),
        [GraphqlClosingIssues ''ubiquity'' ''test-repo'' (Finite 3)])
   \<and> getTaskNumberFromPullRequest
       (sample_context\<lparr>payload_pull_request := sample_pull_request\<lparr>body := None\<rparr>\<rparr>) []
     = (Inl (LogReturn
               ''You need to link an issue and after that convert the PR to ready for review''
               None),
        [GraphqlClosingIssues ''ubiquity'' ''test-repo'' (Finite 3),
         GraphqlConvertToDraft ''PR_node_3''])
   \<and> reviewPull
       (sample_context\<lparr>graphql_closedByPullRequestsReferences :=
          (\<lambda>owner repo n. Inr [sampleNode 7, sampleNode 8])\<rparr>) []
     = (Inl (LogReturn
               ''Multiple tasks linked to this PR, needs investigated to see how best to handle it.''
               None),
        [GraphqlClosingIssues ''ubiquity'' ''test-repo'' (Finite 3)])"
proof -
  let ?q = "[GraphqlClosingIssues ''ubiquity'' ''test-repo'' (Finite 3)]"
  let ?ref = "\<lambda>n. \<lparr>number = Finite n, title = ''task'', url = ''https://github.com'',
     closing_body = ''spec'', repository_name = ''test-repo'', repository_owner = ''ubiquity''\<rparr>"
  let ?none = "\<lparr>closesIssues = False, issues = []\<rparr>"
  let ?c1 = "sample_context\<lparr>graphql_closedByPullRequestsReferences :=
        (\<lambda>owner repo n. Inr [sampleNode 7])\<rparr>"
  let ?c3 = "sample_context\<lparr>payload_pull_request := sample_pull_request\<lparr>body := Some ''Fixes #0''\<rparr>\<rparr>"
  let ?c4 = "sample_context\<lparr>payload_pull_request := sample_pull_request\<lparr>body := None\<rparr>\<rparr>"
  let ?c5 = "sample_context\<lparr>graphql_closedByPullRequestsReferences :=
          (\<lambda>owner repo n. Inr [sampleNode 7, sampleNode 8])\<rparr>"
  have k1: "checkIfPrClosesIssues ?c1 ''ubiquity'' ''test-repo'' (Finite 3) []
              = (Inr \<lparr>closesIssues = True, issues = [?ref 7]\<rparr>, ?q)"
    by (simp add: eval_defs)
  have k2: "checkIfPrClosesIssues sample_context ''ubiquity'' ''test-repo'' (Finite 3) []
              = (Inr ?none, ?q)"
    by (simp add: eval_defs)
  have k3: "checkIfPrClosesIssues ?c3 ''ubiquity'' ''test-repo'' (Finite 3) [] = (Inr ?none, ?q)"
    by (simp add: eval_defs)
  have k4: "checkIfPrClosesIssues ?c4 ''ubiquity'' ''test-repo'' (Finite 3) [] = (Inr ?none, ?q)"
    by (simp add: eval_defs)
  have k5: "checkIfPrClosesIssues ?c5 ''ubiquity'' ''test-repo'' (Finite 3) []
              = (Inr \<lparr>closesIssues = True, issues = [?ref 7, ?ref 8]\<rparr>, ?q)"
    by (simp add: eval_defs)
  have a: "getTaskNumberFromPullRequest ?c1 [] = (Inr (Finite 7), ?q)"
    using getTaskNumberFromPullRequest_cases
      [where ctx = ?c1 and pr = sample_pull_request and tr = "[]" and ?tr1.0 = ?q
         and res = "\<lparr>closesIssues = True, issues = [?ref 7]\<rparr>" and i = "?ref 7",
       THEN conjunct1] k1
    by (simp add: sample_defs falsy_def)
  have b: "getTaskNumberFromPullRequest sample_context [] = (Inr (Finite 1), ?q)"
    using getTaskNumberFromPullRequest_cases
      [where ctx = sample_context and pr = sample_pull_request and tr = "[]" and ?tr1.0 = ?q
         and res = ?none and b = "''Resolves #1''" and ds = "''1''" and ms = "[]",
       THEN conjunct2, THEN conjunct1] k2
    by (simp add: sample_defs falsy_def parse_sample_defs)
  have c: "getTaskNumberFromPullRequest ?c3 [] = (Inl (LogReturn ''Task number not found'' None), ?q)"
    using getTaskNumberFromPullRequest_cases
      [where ctx = ?c3 and pr = "sample_pull_request\<lparr>body := Some ''Fixes #0''\<rparr>"
         and tr = "[]" and ?tr1.0 = ?q
         and res = ?none and b = "''Fixes #0''" and ds = "''0''" and ms = "[]",
       THEN conjunct2, THEN conjunct2, THEN conjunct1] k3
    by (simp add: sample_defs falsy_def parse_sample_defs)
  have d: "getTaskNumberFromPullRequest ?c4 [] =
      (Inl (LogReturn
               ''You need to link an issue and after that convert the PR to ready for review''
               None), ?q @ [GraphqlConvertToDraft ''PR_node_3''])"
    using getTaskNumberFromPullRequest_cases
      [where ctx = ?c4 and pr = "sample_pull_request\<lparr>body := None\<rparr>"
         and tr = "[]" and ?tr1.0 = ?q and res = ?none,
       THEN conjunct2, THEN conjunct2, THEN conjunct2, THEN conjunct1] k4
    by (simp add: sample_defs)
  have e: "reviewPull ?c5 [] =
      (Inl (LogReturn
               ''Multiple tasks linked to this PR, needs investigated to see how best to handle it.''
               None), ?q)"
    using getTaskNumberFromPullRequest_cases
      [where ctx = ?c5 and pr = sample_pull_request and tr = "[]" and ?tr1.0 = ?q
         and res = "\<lparr>closesIssues = True, issues = [?ref 7, ?ref 8]\<rparr>",
       THEN conjunct2, THEN conjunct2, THEN conjunct2, THEN conjunct2] k5
    by (simp add: sample_defs)
  from a b c d e show ?thesis by simp
qed

subsection \<open>Ground-truth selection\<close>

text \<open>
  Resolving the task calls no completion, and \<open>reviewPull\<close> calls it at most once.
\<close>

lemma getTaskNumberFromPullRequest_calls:
  "filter isCreateCompletion (snd (getTaskNumberFromPullRequest ctx tr))
     = filter isCreateCompletion tr"
  by (auto simp: getTaskNumberFromPullRequest_def checkIfPrClosesIssues_def
        convertPullToDraft_def task_defs Let_def
      split: if_splits sum.splits option.splits list.splits)

lemma reviewPull_at_most_one:
  "length (filter isCreateCompletion (snd (reviewPull ctx tr)))
     \<le> Suc (length (filter isCreateCompletion tr))"
proof (cases "getTaskNumberFromPullRequest ctx tr")
  case (Pair r tr1)
  have k: "filter isCreateCompletion tr1 = filter isCreateCompletion tr"
    using getTaskNumberFromPullRequest_calls[of ctx tr] Pair by simp
  show ?thesis
  proof (cases r)
    case (Inl e)
    with Pair k show ?thesis by (simp add: reviewPull_def andThen_def)
  next
    case (Inr taskNumber)
    with Pair k show ?thesis
      by (auto simp: reviewPull_def task_defs promiseAll_def Let_def
            split: sum.splits option.splits prod.splits if_splits)
  qed
qed

text \<open>
  Claim C6, as stated, at an invocation whose linked issue is not found: \<open>reviewPull\<close>
  raises "Error fetching issue, Aborting" after the closing-reference query and the issue
  fetch, and no ground truths of either path reach the completion client.
\<close>

theorem reviewPull_no_issue_counterexample:
  "reviewPull (sample_context\<lparr>fetchIssue := (\<lambda>n. Inr None)\<rparr>) []
     = (Inl (LogReturn ''Error fetching issue, Aborting'' None),
        [GraphqlClosingIssues ''ubiquity'' ''test-repo'' (Finite 3), FetchIssue (Finite 1)])
   \<and> filter isCreateCompletion
        [GraphqlClosingIssues ''ubiquity'' ''test-repo'' (Finite 3), FetchIssue (Finite 1)] = []"
  by (simp add: eval_defs)

text \<open>
  Claim C6, amended. Every invocation of \<open>reviewPull\<close> calls \<open>createCompletion\<close> at
  most once. In every invocation where the task is resolved, the issue fetched, the
  context formatted, the repository signals fetched and the token limit known, exactly
  one path's output is passed to the completion client: if the collector returns exactly
  3 facts, these facts are what the one completion call receives, and the
  task-specification path is not run; otherwise the collector's facts are dropped,
  \<open>findGroundTruths\<close> is called on the task specification and its output is what the
  one completion call receives (or, when it fails, no completion call is made).
\<close>

theorem reviewPull_ground_truths:
  "length (filter isCreateCompletion (snd (reviewPull ctx tr)))
     \<le> Suc (length (filter isCreateCompletion tr))
   \<and> (getTaskNumberFromPullRequest ctx tr = (Inr taskNumber, tr1) \<longrightarrow>
      fetchIssue ctx taskNumber = Inr (Some issue) \<longrightarrow>
      formatSpecAndPull ctx issue = Inr formatted \<longrightarrow>
      fetchRepoLanguageStats ctx = Inr languages \<longrightarrow>
      fetchRepoDependencies ctx = Inr (dependencies, devDependencies) \<longrightarrow>
      getModelMaxTokenLimit ctx (anthropicAiModel ctx) = Inr limit \<longrightarrow>
      facts = collectGroundTruths languages dependencies devDependencies \<longrightarrow>
      taskSpecification = (case issue_body issue of None \<Rightarrow> [] | Some b \<Rightarrow> b) \<longrightarrow>
      tr2 = tr1 @ [FetchIssue taskNumber, FormatSpecAndPull issue, FetchRepoLanguageStats,
                   FetchRepoDependencies] \<longrightarrow>
        (length facts = 3 \<longrightarrow>
           reviewPull ctx tr =
             (createCompletion ctx (anthropicAiModel ctx) formatted facts
                (UBIQUITY_OS_APP_NAME ctx) limit,
              tr2 @ [GetModelMaxTokenLimit (anthropicAiModel ctx),
                     CreateCompletion (anthropicAiModel ctx) formatted facts
                       (UBIQUITY_OS_APP_NAME ctx) limit]))
        \<and> (length facts \<noteq> 3 \<longrightarrow> findGroundTruths ctx taskSpecification = Inr derived \<longrightarrow>
           reviewPull ctx tr =
             (createCompletion ctx (anthropicAiModel ctx) formatted derived
                (UBIQUITY_OS_APP_NAME ctx) limit,
              tr2 @ [FindGroundTruths taskSpecification,
                     GetModelMaxTokenLimit (anthropicAiModel ctx),
                     CreateCompletion (anthropicAiModel ctx) formatted derived
                       (UBIQUITY_OS_APP_NAME ctx) limit]))
        \<and> (length facts \<noteq> 3 \<longrightarrow> findGroundTruths ctx taskSpecification = Inl e \<longrightarrow>
           reviewPull ctx tr = (Inl e, tr2 @ [FindGroundTruths taskSpecification])))"
proof (intro conjI impI)
  show "length (filter isCreateCompletion (snd (reviewPull ctx tr)))
     \<le> Suc (length (filter isCreateCompletion tr))"
    by (rule reviewPull_at_most_one)
next
  assume h: "getTaskNumberFromPullRequest ctx tr = (Inr taskNumber, tr1)"
    "fetchIssue ctx taskNumber = Inr (Some issue)"
    "formatSpecAndPull ctx issue = Inr formatted"
    "fetchRepoLanguageStats ctx = Inr languages"
    "fetchRepoDependencies ctx = Inr (dependencies, devDependencies)"
    "getModelMaxTokenLimit ctx (anthropicAiModel ctx) = Inr limit"
    "facts = collectGroundTruths languages dependencies devDependencies"
    "taskSpecification = (case issue_body issue of None \<Rightarrow> [] | Some b \<Rightarrow> b)"
    "tr2 = tr1 @ [FetchIssue taskNumber, FormatSpecAndPull issue, FetchRepoLanguageStats,
                   FetchRepoDependencies]"
  {
    assume "length facts = 3"
    with h show "reviewPull ctx tr =
             (createCompletion ctx (anthropicAiModel ctx) formatted facts
                (UBIQUITY_OS_APP_NAME ctx) limit,
              tr2 @ [GetModelMaxTokenLimit (anthropicAiModel ctx),
                     CreateCompletion (anthropicAiModel ctx) formatted facts
                       (UBIQUITY_OS_APP_NAME ctx) limit])"
      by (simp add: reviewPull_def task_defs promiseAll_def Let_def)
  next
    assume "length facts \<noteq> 3" "findGroundTruths ctx taskSpecification = Inr derived"
    with h show "reviewPull ctx tr =
             (createCompletion ctx (anthropicAiModel ctx) formatted derived
                (UBIQUITY_OS_APP_NAME ctx) limit,
              tr2 @ [FindGroundTruths taskSpecification,
                     GetModelMaxTokenLimit (anthropicAiModel ctx),
                     CreateCompletion (anthropicAiModel ctx) formatted derived
                       (UBIQUITY_OS_APP_NAME ctx) limit])"
      by (simp add: reviewPull_def task_defs promiseAll_def Let_def)
  next
    assume "length facts \<noteq> 3" "findGroundTruths ctx taskSpecification = Inl e"
    with h show "reviewPull ctx tr = (Inl e, tr2 @ [FindGroundTruths taskSpecification])"
      by (simp add: reviewPull_def task_defs promiseAll_def Let_def)
  }
qed

text \<open>
  The sample repository (one language, one dependency, no devDependencies: one fact)
  takes the task-specification path; a repository without languages and with both
  mappings empty takes the repository-signal path.
\<close>

theorem reviewPull_ground_truths_witness:
  "reviewPull sample_context [] =
     (Inr \<lparr>answer = MOCK_ANSWER_PASSED, completion_groundTruths = [[]],
           tokenUsage_total = 1150\<rparr>,
      [GraphqlClosingIssues ''ubiquity'' ''test-repo'' (Finite 3),
       FetchIssue (Finite 1),
       FormatSpecAndPull \<lparr>issue_number = Finite 1, issue_body = Some ''spec''\<rparr>,
       FetchRepoLanguageStats, FetchRepoDependencies, FindGroundTruths ''spec'',
       GetModelMaxTokenLimit ''claude'',
       CreateCompletion ''claude'' ''formatted'' [''derived''] ''UbiquityOS'' (Finite 50000)])
   \<and> reviewPull
       (sample_context\<lparr>fetchRepoLanguageStats := Inr [],
          fetchRepoDependencies := Inr (Some [], Some [])\<rparr>) [] =
     (Inr \<lparr>answer = MOCK_ANSWER_PASSED, completion_groundTruths = [[]],
           tokenUsage_total = 1150\<rparr>,
      [GraphqlClosingIssues ''ubiquity'' ''test-repo'' (Finite 3),
       FetchIssue (Finite 1),
       FormatSpecAndPull \<lparr>issue_number = Finite 1, issue_body = Some ''spec''\<rparr>,
       FetchRepoLanguageStats, FetchRepoDependencies,
       GetModelMaxTokenLimit ''claude'',
       CreateCompletion ''claude'' ''formatted''
         [''No languages found in the repository'',
          ''No dependencies found in the repository'',
          ''No devDependencies found in the repository''] ''UbiquityOS'' (Finite 50000)])"
proof -
  let ?c1 = "sample_context"
  let ?c2 = "sample_context\<lparr>fetchRepoLanguageStats := Inr [],
          fetchRepoDependencies := Inr (Some [], Some [])\<rparr>"
  let ?tr1 = "[GraphqlClosingIssues ''ubiquity'' ''test-repo'' (Finite 3)]"
  let ?issue = "\<lparr>issue_number = Finite 1, issue_body = Some ''spec''\<rparr>"
  let ?tr2 = "?tr1 @ [FetchIssue (Finite 1), FormatSpecAndPull ?issue, FetchRepoLanguageStats,
                   FetchRepoDependencies]"
  have t1: "getTaskNumberFromPullRequest ?c1 [] = (Inr (Finite 1), ?tr1)"
    by (simp add: eval_defs)
  have t2: "getTaskNumberFromPullRequest ?c2 [] = (Inr (Finite 1), ?tr1)"
    by (simp add: eval_defs)
  have a: "reviewPull ?c1 [] =
     (Inr \<lparr>answer = MOCK_ANSWER_PASSED, completion_groundTruths = [[]],
           tokenUsage_total = 1150\<rparr>,
      ?tr2 @ [FindGroundTruths ''spec'', GetModelMaxTokenLimit ''claude'',
       CreateCompletion ''claude'' ''formatted'' [''derived''] ''UbiquityOS'' (Finite 50000)])"
    using t1 reviewPull_ground_truths
      [where ctx = ?c1 and tr = "[]" and taskNumber = "Finite 1" and ?tr1.0 = ?tr1
         and issue = ?issue and formatted = "''formatted''" and languages = "[(''ts'', 100)]"
         and dependencies = "Some [(''a'', ''1'')]" and devDependencies = "Some []"
         and limit = "Finite 50000"
         and facts = "collectGroundTruths [(''ts'', 100)] (Some [(''a'', ''1'')]) (Some [])"
         and taskSpecification = "''spec''" and ?tr2.0 = ?tr2 and derived = "[''derived'']",
       THEN conjunct2]
    by (simp add: sample_context_def collectGroundTruths_def ownKeys_def)
  have b: "reviewPull ?c2 [] =
     (Inr \<lparr>answer = MOCK_ANSWER_PASSED, completion_groundTruths = [[]],
           tokenUsage_total = 1150\<rparr>,
      ?tr2 @ [GetModelMaxTokenLimit ''claude'',
       CreateCompletion ''claude'' ''formatted''
         [''No languages found in the repository'',
          ''No dependencies found in the repository'',
          ''No devDependencies found in the repository''] ''UbiquityOS'' (Finite 50000)])"
    using t2 reviewPull_ground_truths
      [where ctx = ?c2 and tr = "[]" and taskNumber = "Finite 1" and ?tr1.0 = ?tr1
         and issue = ?issue and formatted = "''formatted''" and languages = "[]"
         and dependencies = "Some []" and devDependencies = "Some []"
         and limit = "Finite 50000"
         and facts = "collectGroundTruths [] (Some []) (Some [])"
         and taskSpecification = "''spec''" and ?tr2.0 = ?tr2,
       THEN conjunct2]
    by (simp add: sample_context_def collectGroundTruths_def ownKeys_def)
  from a b show ?thesis by simp
qed

subsection \<open>Decision after the verdict\<close>

text \<open>
  Claim C2, as stated, at confidence exactly 0.5: no draft conversion occurs, as the
  claim says, but the review event is REQUEST_CHANGES, not COMMENT; so REQUEST_CHANGES
  occurs without a draft conversion.
\<close>

theorem handleCodeReview_half_counterexample:
  "parsePullReviewData sample_context ''{confidenceThreshold: 0.5, reviewComment: 'unsure'}'' []
     = (Inr \<lparr>confidenceThreshold = Finite 0.5, reviewComment = ''unsure''\<rparr>, [])
   \<and> handleCodeReview
       (sample_context\<lparr>createCompletion := (\<lambda>m f g a l.
          Inr \<lparr>answer = ''{confidenceThreshold: 0.5, reviewComment: 'unsure'}'',
               completion_groundTruths = [[]], tokenUsage_total = 1150\<rparr>)\<rparr>) []
     = (Inr \<lparr>status = 200, reason = ''Success''\<rparr>,
        [GraphqlClosingIssues ''ubiquity'' ''test-repo'' (Finite 3),
         FetchIssue (Finite 1),
         FormatSpecAndPull \<lparr>issue_number = Finite 1, issue_body = Some ''spec''\<rparr>,
         FetchRepoLanguageStats, FetchRepoDependencies, FindGroundTruths ''spec'',
         GetModelMaxTokenLimit ''claude'',
         CreateCompletion ''claude'' ''formatted'' [''derived''] ''UbiquityOS'' (Finite 50000),
         CreateReview ''ubiquity'' ''test-repo'' (Finite 3) ''unsure'' REQUEST_CHANGES])"
  by (simp add: method_defs task_defs sample_defs parse_sample_defs)

text \<open>
  Claim C2, amended. For every parsed verdict: if \<open>confidenceThreshold < 0.5\<close> the draft
  conversion is called before the review is submitted and the review event is
  REQUEST_CHANGES (a rejected conversion aborts before the review); otherwise, also at
  exactly 0.5 and at a NaN threshold, no draft conversion occurs, and the review event is
  COMMENT if \<open>confidenceThreshold > 0.5\<close> and REQUEST_CHANGES if not, which is the case
  at exactly 0.5 and at NaN. So a draft conversion never comes with COMMENT, and
  REQUEST_CHANGES comes without a draft conversion exactly when the threshold is neither
  below nor above 0.5.
\<close>

theorem handleCodeReview_decision:
  assumes "reviewPull ctx tr = (Inr pullReviewData, tr1)"
    and "parsePullReviewData ctx (answer pullReviewData) tr1 = (Inr parsed, tr2)"
  shows "(js_lt (confidenceThreshold parsed) (Finite 0.5) \<longrightarrow>
           snd (handleCodeReview ctx tr) =
             tr2 @ [GraphqlConvertToDraft (node_id (payload_pull_request ctx))]
                 @ (case graphql_convertPullRequestToDraft ctx (node_id (payload_pull_request ctx)) of
                      Inl e \<Rightarrow> []
                    | Inr u \<Rightarrow>
                        [CreateReview (payload_repository_owner_login ctx)
                           (payload_repository_name ctx) (payload_number ctx)
                           (reviewComment parsed) REQUEST_CHANGES]))
       \<and> (js_gt (confidenceThreshold parsed) (Finite 0.5) \<longrightarrow>
           snd (handleCodeReview ctx tr) =
             tr2 @ [CreateReview (payload_repository_owner_login ctx)
                      (payload_repository_name ctx) (payload_number ctx)
                      (reviewComment parsed) COMMENT])
       \<and> (\<not> js_lt (confidenceThreshold parsed) (Finite 0.5) \<longrightarrow>
           \<not> js_gt (confidenceThreshold parsed) (Finite 0.5) \<longrightarrow>
           snd (handleCodeReview ctx tr) =
             tr2 @ [CreateReview (payload_repository_owner_login ctx)
                      (payload_repository_name ctx) (payload_number ctx)
                      (reviewComment parsed) REQUEST_CHANGES])
       \<and> (confidenceThreshold parsed = Finite 0.5 \<or> confidenceThreshold parsed = NaN \<longrightarrow>
           snd (handleCodeReview ctx tr) =
             tr2 @ [CreateReview (payload_repository_owner_login ctx)
                      (payload_repository_name ctx) (payload_number ctx)
                      (reviewComment parsed) REQUEST_CHANGES])"
proof -
  have excl: "js_lt a b \<Longrightarrow> \<not> js_lt b a" for a b
    by (cases a; cases b) auto
  have low: "js_lt (confidenceThreshold parsed) (Finite 0.5) \<longrightarrow>
           snd (handleCodeReview ctx tr) =
             tr2 @ [GraphqlConvertToDraft (node_id (payload_pull_request ctx))]
                 @ (case graphql_convertPullRequestToDraft ctx (node_id (payload_pull_request ctx)) of
                      Inl e \<Rightarrow> []
                    | Inr u \<Rightarrow>
                        [CreateReview (payload_repository_owner_login ctx)
                           (payload_repository_name ctx) (payload_number ctx)
                           (reviewComment parsed) REQUEST_CHANGES])"
    using assms
    by (auto simp: handleCodeReview_def convertPullToDraft_def submitCodeReview_def task_defs
          js_gt_def dest: excl split: sum.splits)
  have rest: "\<not> js_lt (confidenceThreshold parsed) (Finite 0.5) \<Longrightarrow>
           snd (handleCodeReview ctx tr) =
             tr2 @ [CreateReview (payload_repository_owner_login ctx)
                      (payload_repository_name ctx) (payload_number ctx) (reviewComment parsed)
                      (if js_gt (confidenceThreshold parsed) (Finite 0.5)
                       then COMMENT else REQUEST_CHANGES)]"
    using assms
    by (auto simp: handleCodeReview_def submitCodeReview_def task_defs split: sum.splits)
  have high: "js_gt (confidenceThreshold parsed) (Finite 0.5) \<longrightarrow>
           snd (handleCodeReview ctx tr) =
             tr2 @ [CreateReview (payload_repository_owner_login ctx)
                      (payload_repository_name ctx) (payload_number ctx)
                      (reviewComment parsed) COMMENT]"
    using rest excl[of "Finite 0.5" "confidenceThreshold parsed"] by (auto simp: js_gt_def)
  have mid: "\<not> js_lt (confidenceThreshold parsed) (Finite 0.5) \<longrightarrow>
           \<not> js_gt (confidenceThreshold parsed) (Finite 0.5) \<longrightarrow>
           snd (handleCodeReview ctx tr) =
             tr2 @ [CreateReview (payload_repository_owner_login ctx)
                      (payload_repository_name ctx) (payload_number ctx)
                      (reviewComment parsed) REQUEST_CHANGES]"
    using rest by simp
  have half: "confidenceThreshold parsed = Finite 0.5 \<or> confidenceThreshold parsed = NaN \<longrightarrow>
           snd (handleCodeReview ctx tr) =
             tr2 @ [CreateReview (payload_repository_owner_login ctx)
                      (payload_repository_name ctx) (payload_number ctx)
                      (reviewComment parsed) REQUEST_CHANGES]"
    using rest by (auto simp: js_gt_def)
  from low high mid half show ?thesis by blast
qed

text \<open>
  The end-to-end scenarios of the specification: confidence 0.2 gives one draft conversion
  followed by one review with REQUEST_CHANGES, confidence 1 gives one review with COMMENT
  and no draft conversion. Confidence 0.5 and a NaN confidence give one review with
  REQUEST_CHANGES and no draft conversion.
\<close>

theorem handleCodeReview_decision_witness:
  "snd (handleCodeReview
       (sample_context\<lparr>createCompletion := (\<lambda>m f g a l.
          Inr \<lparr>answer = ''{confidenceThreshold: 0.2, reviewComment: 'failed'}'',
               completion_groundTruths = [[]], tokenUsage_total = 1150\<rparr>)\<rparr>) [])
     = [GraphqlClosingIssues ''ubiquity'' ''test-repo'' (Finite 3),
        FetchIssue (Finite 1),
        FormatSpecAndPull \<lparr>issue_number = Finite 1, issue_body = Some ''spec''\<rparr>,
        FetchRepoLanguageStats, FetchRepoDependencies, FindGroundTruths ''spec'',
        GetModelMaxTokenLimit ''claude'',
        CreateCompletion ''claude'' ''formatted'' [''derived''] ''UbiquityOS'' (Finite 50000),
        GraphqlConvertToDraft ''PR_node_3'',
        CreateReview ''ubiquity'' ''test-repo'' (Finite 3) ''failed'' REQUEST_CHANGES]
   \<and> snd (handleCodeReview sample_context [])
     = [GraphqlClosingIssues ''ubiquity'' ''test-repo'' (Finite 3),
        FetchIssue (Finite 1),
        FormatSpecAndPull \<lparr>issue_number = Finite 1, issue_body = Some ''spec''\<rparr>,
        FetchRepoLanguageStats, FetchRepoDependencies, FindGroundTruths ''spec'',
        GetModelMaxTokenLimit ''claude'',
        CreateCompletion ''claude'' ''formatted'' [''derived''] ''UbiquityOS'' (Finite 50000),
        CreateReview ''ubiquity'' ''test-repo'' (Finite 3) ''passed'' COMMENT]
   \<and> snd (handleCodeReview
       (sample_context\<lparr>createCompletion := (\<lambda>m f g a l.
          Inr \<lparr>answer = ''{confidenceThreshold: 0.5, reviewComment: 'unsure'}'',
               completion_groundTruths = [[]], tokenUsage_total = 1150\<rparr>)\<rparr>) [])
     = [GraphqlClosingIssues ''ubiquity'' ''test-repo'' (Finite 3),
        FetchIssue (Finite 1),
        FormatSpecAndPull \<lparr>issue_number = Finite 1, issue_body = Some ''spec''\<rparr>,
        FetchRepoLanguageStats, FetchRepoDependencies, FindGroundTruths ''spec'',
        GetModelMaxTokenLimit ''claude'',
        CreateCompletion ''claude'' ''formatted'' [''derived''] ''UbiquityOS'' (Finite 50000),
        CreateReview ''ubiquity'' ''test-repo'' (Finite 3) ''unsure'' REQUEST_CHANGES]
   \<and> snd (handleCodeReview
       (sample_context\<lparr>createCompletion := (\<lambda>m f g a l.
          Inr \<lparr>answer = ''{confidenceThreshold: NaN, reviewComment: 'unknown'}'',
               completion_groundTruths = [[]], tokenUsage_total = 1150\<rparr>)\<rparr>) [])
     = [GraphqlClosingIssues ''ubiquity'' ''test-repo'' (Finite 3),
        FetchIssue (Finite 1),
        FormatSpecAndPull \<lparr>issue_number = Finite 1, issue_body = Some ''spec''\<rparr>,
        FetchRepoLanguageStats, FetchRepoDependencies, FindGroundTruths ''spec'',
        GetModelMaxTokenLimit ''claude'',
        CreateCompletion ''claude'' ''formatted'' [''derived''] ''UbiquityOS'' (Finite 50000),
        CreateReview ''ubiquity'' ''test-repo'' (Finite 3) ''unknown'' REQUEST_CHANGES]"
proof -
  let ?half = "\<lparr>answer = ''{confidenceThreshold: 0.5, reviewComment: 'unsure'}'',
               completion_groundTruths = [[]], tokenUsage_total = 1150\<rparr>"
  let ?nan = "\<lparr>answer = ''{confidenceThreshold: NaN, reviewComment: 'unknown'}'',
               completion_groundTruths = [[]], tokenUsage_total = 1150\<rparr>"
  let ?c3 = "sample_context\<lparr>createCompletion := (\<lambda>m f g a l. Inr ?half)\<rparr>"
  let ?c4 = "sample_context\<lparr>createCompletion := (\<lambda>m f g a l. Inr ?nan)\<rparr>"
  let ?low = "\<lparr>answer = ''{confidenceThreshold: 0.2, reviewComment: 'failed'}'',
               completion_groundTruths = [[]], tokenUsage_total = 1150\<rparr>"
  let ?high = "\<lparr>answer = MOCK_ANSWER_PASSED, completion_groundTruths = [[]],
               tokenUsage_total = 1150\<rparr>"
  let ?c1 = "sample_context\<lparr>createCompletion := (\<lambda>m f g a l. Inr ?low)\<rparr>"
  let ?tr = "[GraphqlClosingIssues ''ubiquity'' ''test-repo'' (Finite 3),
        FetchIssue (Finite 1),
        FormatSpecAndPull \<lparr>issue_number = Finite 1, issue_body = Some ''spec''\<rparr>,
        FetchRepoLanguageStats, FetchRepoDependencies, FindGroundTruths ''spec'',
        GetModelMaxTokenLimit ''claude'',
        CreateCompletion ''claude'' ''formatted'' [''derived''] ''UbiquityOS'' (Finite 50000)]"
  have r1: "reviewPull ?c1 [] = (Inr ?low, ?tr)"
    by (simp add: eval_defs)
  have p1: "parsePullReviewData ?c1 (answer ?low) ?tr
              = (Inr \<lparr>confidenceThreshold = Finite 0.2, reviewComment = ''failed''\<rparr>, ?tr)"
    by (simp add: eval_defs)
  have r2: "reviewPull sample_context [] = (Inr ?high, ?tr)"
    by (simp add: eval_defs)
  have p2: "parsePullReviewData sample_context (answer ?high) ?tr
              = (Inr \<lparr>confidenceThreshold = Finite 1, reviewComment = ''passed''\<rparr>, ?tr)"
    by (simp add: eval_defs)
  have a: "snd (handleCodeReview ?c1 []) =
             ?tr @ [GraphqlConvertToDraft ''PR_node_3'',
               CreateReview ''ubiquity'' ''test-repo'' (Finite 3) ''failed'' REQUEST_CHANGES]"
    using handleCodeReview_decision[OF r1 p1, THEN conjunct1]
    by (simp add: sample_defs)
  have b: "snd (handleCodeReview sample_context []) =
             ?tr @ [CreateReview ''ubiquity'' ''test-repo'' (Finite 3) ''passed'' COMMENT]"
    using handleCodeReview_decision[OF r2 p2, THEN conjunct2, THEN conjunct1]
    by (simp add: sample_defs js_gt_def)
  have r3: "reviewPull ?c3 [] = (Inr ?half, ?tr)"
    by (simp add: eval_defs)
  have p3: "parsePullReviewData ?c3 (answer ?half) ?tr
              = (Inr \<lparr>confidenceThreshold = Finite 0.5, reviewComment = ''unsure''\<rparr>, ?tr)"
    by (simp add: eval_defs)
  have r4: "reviewPull ?c4 [] = (Inr ?nan, ?tr)"
    by (simp add: eval_defs)
  have p4: "parsePullReviewData ?c4 (answer ?nan) ?tr
              = (Inr \<lparr>confidenceThreshold = NaN, reviewComment = ''unknown''\<rparr>, ?tr)"
    by (simp add: eval_defs)
  have c: "snd (handleCodeReview ?c3 []) =
             ?tr @ [CreateReview ''ubiquity'' ''test-repo'' (Finite 3) ''unsure'' REQUEST_CHANGES]"
    using handleCodeReview_decision[OF r3 p3, THEN conjunct2, THEN conjunct2, THEN conjunct1]
    by (simp add: sample_defs js_gt_def)
  have d: "snd (handleCodeReview ?c4 []) =
             ?tr @ [CreateReview ''ubiquity'' ''test-repo'' (Finite 3) ''unknown'' REQUEST_CHANGES]"
    using handleCodeReview_decision[OF r4 p4, THEN conjunct2, THEN conjunct2, THEN conjunct2]
    by (simp add: sample_defs)
  from a b c d show ?thesis by simp
qed

subsection \<open>Ground truth collector\<close>

lemma ownKeys_empty: "ownKeys d = [] \<longleftrightarrow> d = []"
  by (simp add: ownKeys_def)

text \<open>
  Claim C5. The collector's result holds the languages fact exactly when the language
  list is empty, the dependencies fact exactly when the dependency mapping is present
  without keys, the devDependencies fact exactly when the dev-dependency mapping is
  present without keys; the facts come without repetition in the order languages,
  dependencies, devDependencies. On \<open>([], {}, {})\<close> the result is the three facts in that
  order, and on \<open>([(ts, 100)], {a: 1}, {})\<close> it is the devDependencies fact alone.
\<close>

theorem collectGroundTruths_facts:
  "(''No languages found in the repository'' \<in> set (collectGroundTruths ls ds dds) \<longleftrightarrow> ls = [])
   \<and> (''No dependencies found in the repository'' \<in> set (collectGroundTruths ls ds dds)
        \<longleftrightarrow> ds = Some [])
   \<and> (''No devDependencies found in the repository'' \<in> set (collectGroundTruths ls ds dds)
        \<longleftrightarrow> dds = Some [])
   \<and> subseq (collectGroundTruths ls ds dds)
        [''No languages found in the repository'',
         ''No dependencies found in the repository'',
         ''No devDependencies found in the repository'']
   \<and> collectGroundTruths [] (Some []) (Some []) =
        [''No languages found in the repository'',
         ''No dependencies found in the repository'',
         ''No devDependencies found in the repository'']
   \<and> collectGroundTruths [(''ts'', 100)] (Some [(''a'', ''1'')]) (Some []) =
        [''No devDependencies found in the repository'']"
  by (cases ds; cases dds; cases ls)
     (simp_all add: collectGroundTruths_def Let_def ownKeys_empty)

end
